theory Spec2Isabelle
  imports Complex_Main
begin

section \<open>Run configuration\<close>

text \<open>
  The namespace built by \<open>Trainer.get_args_parser\<close> (train_snn_mixer.py, lines 392-424),
  one field per command line flag. Python floats are read as reals, Python ints as
  integers, \<open>None\<close> as \<open>None\<close>. The field \<open>T\<close> of the source is called \<open>T_steps\<close>.
\<close>

record args =
  data_path :: string
  model :: string
  T_steps :: int
  cupy :: bool
  device :: string
  batch_size :: int
  epochs :: int
  workers :: int
  opt :: string
  lr :: real
  momentum :: real
  weight_decay :: real
  lr_scheduler :: string
  lr_warmup_epochs :: int
  lr_warmup_method :: string
  lr_warmup_decay :: real
  lr_step_size :: int
  lr_gamma :: real
  output_dir :: string
  resume :: "string option"
  start_epoch :: int
  world_size :: int
  dist_url :: string
  seed :: int
  amp :: bool
  clip_grad_norm :: "real option"
  local_rank :: "int option"
  sync_bn :: bool

text \<open>The defaults of the parser.\<close>

definition default_args :: args where
  "default_args =
     \<lparr> data_path = ''./data'', model = ''mixer'', T_steps = 4, cupy = False,
       device = ''cuda'', batch_size = 32, epochs = 90, workers = 16, opt = ''sgd'',
       lr = 1 / 10, momentum = 9 / 10, weight_decay = 0, lr_scheduler = ''cosa'',
       lr_warmup_epochs = 10, lr_warmup_method = ''linear'', lr_warmup_decay = 1 / 100,
       lr_step_size = 30, lr_gamma = 1 / 10, output_dir = ''./logs'', resume = None,
       start_epoch = 0, world_size = 1, dist_url = ''env://'', seed = 42, amp = False,
       clip_grad_norm = None, local_rank = None, sync_bn = False \<rparr>"

section \<open>Errors\<close>

text \<open>Every exception the modelled code can raise, with its message or key.\<close>

datatype error =
    NotImplementedError string
  | KeyError string
  | FileExistsError string
  | FileNotFoundError string
  | UnpicklingError string
  | ValueError string
  | ZeroDivisionError
  | IndexError string

section \<open>Strings\<close>

text \<open>
  \<open>str.lower()\<close>. A string is a list of 8-bit characters; the letters \<open>A\<close> to \<open>Z\<close>
  are mapped to \<open>a\<close> to \<open>z\<close> and every other character is kept. (Python also lowers
  letters outside ASCII; none of them becomes one of the letters of the names compared
  below, which contain neither \<open>k\<close> nor \<open>i\<close>.)
\<close>

definition upper_letters :: string where
  "upper_letters = ''ABCDEFGHIJKLMNOPQRSTUVWXYZ''"

definition lower_letters :: string where
  "lower_letters = ''abcdefghijklmnopqrstuvwxyz''"

definition lower_char :: "char \<Rightarrow> char" where
  "lower_char c =
     (case map_of (zip upper_letters lower_letters) c of Some d \<Rightarrow> d | None \<Rightarrow> c)"

definition lower :: "string \<Rightarrow> string" where
  "lower s = map lower_char s"

text \<open>
  Case-insensitive agreement of a name with a lower-case name, written from the words
  of the specification: same length, and each character is the lower-case letter or its
  capital.
\<close>

definition upper_char :: "char \<Rightarrow> char" where
  "upper_char c =
     (case map_of (zip lower_letters upper_letters) c of Some d \<Rightarrow> d | None \<Rightarrow> c)"

definition ci_match :: "string \<Rightarrow> string \<Rightarrow> bool" where
  "ci_match s name = list_all2 (\<lambda>c d. c = d \<or> c = upper_char d) s name"

text \<open>\<open>str(n)\<close> of a Python int, as an f-string prints it.\<close>

definition digit_char :: "nat \<Rightarrow> char" where
  "digit_char d = ''0123456789'' ! d"

function str_nat :: "nat \<Rightarrow> string" where
  "str_nat n = (if n < 10 then [digit_char n] else str_nat (n div 10) @ [digit_char (n mod 10)])"
  by pat_completeness auto
termination
  by (relation "measure (\<lambda>n. n)") auto

declare str_nat.simps [simp del]

definition str_int :: "int \<Rightarrow> string" where
  "str_int i = (if i < 0 then CHR ''-'' # str_nat (nat (- i)) else str_nat (nat i))"

text \<open>
  \<open>os.path.join\<close> on POSIX: a component that starts with a slash discards what came
  before it; otherwise it is appended, after a slash unless the path so far is empty or
  ends with one.
\<close>

definition join2 :: "string \<Rightarrow> string \<Rightarrow> string" where
  "join2 p b =
     (if b \<noteq> [] \<and> hd b = CHR ''/'' then b
      else if p = [] \<or> last p = CHR ''/'' then p @ b
      else p @ ''/'' @ b)"

definition path_join :: "string \<Rightarrow> string list \<Rightarrow> string" where
  "path_join a ps = foldl join2 a ps"

section \<open>Optimizer and learning-rate scheduler set-up\<close>

text \<open>
  The objects the set-up functions construct are recorded by constructor and
  arguments.
\<close>

datatype optimizer =
    SGD real real real
  | AdamW real real

datatype scheduler =
    StepLR int real
  | CosineAnnealingLR int
  | ExponentialLR real
  | LinearLR real int
  | ConstantLR real int
  | SequentialLR "scheduler list" "int list"

text \<open>
  The constructors of torch the set-up calls are not among the source files. As torch
  documents them, \<open>torch.optim.SGD\<close> and \<open>torch.optim.AdamW\<close> refuse a negative learning
  rate, momentum or weight decay, \<open>LinearLR\<close> a start factor outside \<open>(0, 1]\<close> and
  \<open>ConstantLR\<close> a factor outside \<open>[0, 1]\<close>, each with \<open>ValueError\<close>; \<open>StepLR\<close>,
  \<open>CosineAnnealingLR\<close>, \<open>ExponentialLR\<close> and \<open>SequentialLR\<close> accept what the set-up
  passes.
\<close>

definition torch_SGD :: "real \<Rightarrow> real \<Rightarrow> real \<Rightarrow> error + optimizer" where
  "torch_SGD rate mom decay =
     (if rate < 0 then Inl (ValueError ''Invalid learning rate'')
      else if mom < 0 then Inl (ValueError ''Invalid momentum value'')
      else if decay < 0 then Inl (ValueError ''Invalid weight_decay value'')
      else Inr (SGD rate mom decay))"

definition torch_AdamW :: "real \<Rightarrow> real \<Rightarrow> error + optimizer" where
  "torch_AdamW rate decay =
     (if rate < 0 then Inl (ValueError ''Invalid learning rate'')
      else if decay < 0 then Inl (ValueError ''Invalid weight_decay value'')
      else Inr (AdamW rate decay))"

definition torch_LinearLR :: "real \<Rightarrow> int \<Rightarrow> error + scheduler" where
  "torch_LinearLR start_factor total_iters =
     (if start_factor > 1 \<or> start_factor \<le> 0
      then Inl (ValueError ''Starting multiplicative factor expected to be greater than 0 and less or equal to 1.'')
      else Inr (LinearLR start_factor total_iters))"

definition torch_ConstantLR :: "real \<Rightarrow> int \<Rightarrow> error + scheduler" where
  "torch_ConstantLR factor total_iters =
     (if factor > 1 \<or> factor < 0
      then Inl (ValueError ''Constant multiplicative factor expected to be between 0 and 1.'')
      else Inr (ConstantLR factor total_iters))"

text \<open>\<open>Trainer.set_optimizer\<close>, lines 282-299.\<close>

definition set_optimizer :: "args \<Rightarrow> error + optimizer" where
  "set_optimizer a =
     (let opt_name = lower (opt a) in
      if opt_name = ''sgd'' then torch_SGD (lr a) (momentum a) (weight_decay a)
      else if opt_name = ''adamw'' then torch_AdamW (lr a) (weight_decay a)
      else Inl (NotImplementedError (''Not supported optimizer '' @ opt a)))"

text \<open>\<open>Trainer.set_lr_scheduler\<close>, lines 301-344: the primary scheduler first.\<close>

definition main_lr_scheduler :: "args \<Rightarrow> error + scheduler" where
  "main_lr_scheduler a =
     (let name = lower (lr_scheduler a) in
      if name = ''step'' then Inr (StepLR (lr_step_size a) (lr_gamma a))
      else if name = ''cosa'' then Inr (CosineAnnealingLR (epochs a - lr_warmup_epochs a))
      else if name = ''exp'' then Inr (ExponentialLR (lr_gamma a))
      else Inl (NotImplementedError (''Not supported lr_scheduler '' @ lr_scheduler a)))"

definition set_lr_scheduler :: "args \<Rightarrow> error + scheduler" where
  "set_lr_scheduler a =
     (case main_lr_scheduler a of
        Inl e \<Rightarrow> Inl e
      | Inr main_sched \<Rightarrow>
          if lr_warmup_epochs a > 0 then
            (if lr_warmup_method a = ''linear'' then
               (case torch_LinearLR (lr_warmup_decay a) (lr_warmup_epochs a) of
                  Inl e \<Rightarrow> Inl e
                | Inr warmup \<Rightarrow> Inr (SequentialLR [warmup, main_sched] [lr_warmup_epochs a]))
             else if lr_warmup_method a = ''constant'' then
               (case torch_ConstantLR (lr_warmup_decay a) (lr_warmup_epochs a) of
                  Inl e \<Rightarrow> Inl e
                | Inr warmup \<Rightarrow> Inr (SequentialLR [warmup, main_sched] [lr_warmup_epochs a]))
             else Inl (NotImplementedError
                         (''Not supported lr_warmup_method '' @ lr_warmup_method a)))
          else Inr main_sched)"

section \<open>Run directory\<close>

text \<open>
  \<open>Trainer.get_logdir_name\<close>, lines 346-349. How Python prints a float is not modelled:
  the parameter \<open>fstr\<close> stands for it.
\<close>

definition get_logdir_name :: "(real \<Rightarrow> string) \<Rightarrow> args \<Rightarrow> string" where
  "get_logdir_name fstr a =
     model a @ ''_b'' @ str_int (batch_size a) @ ''_e'' @ str_int (epochs a) @
     ''_'' @ opt a @ ''_lr'' @ fstr (lr a) @ ''_wd'' @ fstr (weight_decay a) @
     ''_seed'' @ str_int (seed a)"

text \<open>The directories and files of a run, lines 99-101, 111, 126, 164 and 166.\<close>

definition pt_dir :: "(real \<Rightarrow> string) \<Rightarrow> args \<Rightarrow> string" where
  "pt_dir fstr a = path_join (output_dir a) [get_logdir_name fstr a, ''pt'']"

definition tb_dir :: "(real \<Rightarrow> string) \<Rightarrow> args \<Rightarrow> string" where
  "tb_dir fstr a = path_join (output_dir a) [get_logdir_name fstr a, ''tb'']"

definition args_txt :: "(real \<Rightarrow> string) \<Rightarrow> args \<Rightarrow> string" where
  "args_txt fstr a = path_join (output_dir a) [get_logdir_name fstr a, ''args.txt'']"

definition latest_path :: "(real \<Rightarrow> string) \<Rightarrow> args \<Rightarrow> string" where
  "latest_path fstr a = path_join (pt_dir fstr a) [''checkpoint_latest.pth'']"

definition best_path :: "(real \<Rightarrow> string) \<Rightarrow> args \<Rightarrow> string" where
  "best_path fstr a = path_join (pt_dir fstr a) [''checkpoint_max_test_acc1.pth'']"

section \<open>The framework's state, checkpoints and files\<close>

text \<open>
  A state dict (\<open>state_dict()\<close> of the model, the optimizer, the scheduler or the
  gradient scaler) is a value of the type parameter \<open>'sd\<close>. The scaler's entry is read only
  when mixed precision is on (\<open>args.amp\<close>), where the source holds a scaler object;
  otherwise the source's \<open>scaler\<close> is \<open>None\<close>.
\<close>

record 'sd tensors =
  model_sd :: 'sd
  optimizer_sd :: 'sd
  lr_scheduler_sd :: 'sd
  scaler_sd :: 'sd

text \<open>
  The dict written at lines 154-163. The key \<open>scaler\<close> is absent (\<open>None\<close> here) unless
  line 163 has stored it.
\<close>

record 'sd checkpoint =
  ck_model :: 'sd
  ck_optimizer :: 'sd
  ck_lr_scheduler :: 'sd
  ck_epoch :: int
  ck_args :: args
  ck_max_test_acc1 :: real
  ck_scaler :: "'sd option"

definition ckpt_keys :: "'sd checkpoint \<Rightarrow> string list" where
  "ckpt_keys ck =
     [''model'', ''optimizer'', ''lr_scheduler'', ''epoch'', ''args'', ''max_test_acc1''] @
     (case ck_scaler ck of None \<Rightarrow> [] | Some s \<Rightarrow> [''scaler''])"

datatype 'sd file_content = CheckpointFile "'sd checkpoint" | ArgsFile args

text \<open>
  What a run does that can be observed from outside, in order: the calls into torch and
  spikingjelly, the entries and returns of the two passes, the scalars logged, the
  checkpoints saved and the warnings. \<open>Forward d\<close> records whether the spiking network
  still held temporal state (\<open>d\<close>) when the forward pass started.
\<close>

datatype 'sd event =
    SetEpoch int
  | TrainBegin int
  | TrainEnd
  | EvalBegin
  | EvalEnd
  | OneHot
  | Repeat int
  | PoissonEncode
  | Forward bool
  | MeanOverTime
  | MSELoss
  | ZeroGrad
  | ScaledBackward
  | Backward
  | Unscale
  | ClipGradNorm real
  | ScalerStep
  | ScalerUpdate
  | OptimizerStep
  | ResetNet
  | LrSchedulerStep
  | AddScalar string real int
  | TorchSave string "'sd checkpoint"
  | Warn nat nat

record 'sd world =
  tensors :: "'sd tensors"
  net_dirty :: bool
  dirs :: "string set"
  files :: "string \<rightharpoonup> 'sd file_content"
  trace :: "'sd event list"

text \<open>
  Modelled from the spec: \<open>utils.SmoothedValue\<close> and \<open>utils.MetricLogger\<close> are not among
  the source files. "The metric accumulator's global average equals the sample-weighted
  mean across all merged updates": a meter keeps the weighted sum and the weight. The
  meters \<open>lr\<close> and \<open>img/s\<close> (wall-clock throughput) are left out.
\<close>

record meter =
  meter_total :: real
  meter_count :: nat

definition empty_meter :: meter where
  "empty_meter = \<lparr> meter_total = 0, meter_count = 0 \<rparr>"

definition meter_update :: "real \<Rightarrow> nat \<Rightarrow> meter \<Rightarrow> meter" where
  "meter_update v n m =
     \<lparr> meter_total = meter_total m + v * real n, meter_count = meter_count m + n \<rparr>"

definition global_avg :: "meter \<Rightarrow> real" where
  "global_avg m = meter_total m / real (meter_count m)"

record metric_logger =
  loss_meter :: meter
  acc1_meter :: meter
  acc5_meter :: meter

definition empty_logger :: metric_logger where
  "empty_logger =
     \<lparr> loss_meter = empty_meter, acc1_meter = empty_meter, acc5_meter = empty_meter \<rparr>"

text \<open>
  What the run takes from outside the source file: the process's rank
  (\<open>utils.is_main_process\<close>), whether the run is distributed
  (\<open>utils.init_distributed_mode\<close>), the batches the data loaders yield, the declared
  length of the test dataset (\<open>None\<close> when it has no \<open>__len__\<close>), the reductions across
  processes, Python's printing of floats, and the framework: how a call changes the
  state dicts, and the loss and accuracies it computes for a batch.
\<close>

record ('sd, 'b) env =
  is_main_process :: bool
  distributed :: bool
  train_batches :: "int \<Rightarrow> 'b list"
  test_batches :: "'b list"
  test_dataset_len :: "nat option"
  reduce_across_processes :: "nat \<Rightarrow> nat"
  synchronize_between_processes :: "metric_logger \<Rightarrow> metric_logger"
  float_str :: "real \<Rightarrow> string"
  fw_effect :: "'sd event \<Rightarrow> 'sd tensors \<Rightarrow> 'sd tensors"
  fw_observe :: "'b \<Rightarrow> 'sd tensors \<Rightarrow> real \<times> real \<times> real"
  fw_batch_size :: "'b \<Rightarrow> nat"

definition emit :: "'sd event \<Rightarrow> 'sd world \<Rightarrow> 'sd world" where
  "emit ev w = w\<lparr> trace := trace w @ [ev] \<rparr>"

definition call :: "('sd, 'b) env \<Rightarrow> 'sd event \<Rightarrow> 'sd world \<Rightarrow> 'sd world" where
  "call E ev w = w\<lparr> trace := trace w @ [ev], tensors := fw_effect E ev (tensors w) \<rparr>"

text \<open>
  The model's forward pass leaves temporal state in the spiking neurons;
  \<open>functional.reset_net\<close> clears it.
\<close>

definition forward :: "('sd, 'b) env \<Rightarrow> 'sd world \<Rightarrow> 'sd world" where
  "forward E w = (call E (Forward (net_dirty w)) w)\<lparr> net_dirty := True \<rparr>"

definition reset_net :: "('sd, 'b) env \<Rightarrow> 'sd world \<Rightarrow> 'sd world" where
  "reset_net E w = (call E ResetNet w)\<lparr> net_dirty := False \<rparr>"

section \<open>The training pass and the evaluation pass\<close>

text \<open>Lines 256-265.\<close>

definition preprocess_train_sample :: "('sd, 'b) env \<Rightarrow> args \<Rightarrow> 'sd world \<Rightarrow> 'sd world" where
  "preprocess_train_sample E a w = call E PoissonEncode (call E (Repeat (T_steps a)) w)"

definition preprocess_test_sample :: "('sd, 'b) env \<Rightarrow> args \<Rightarrow> 'sd world \<Rightarrow> 'sd world" where
  "preprocess_test_sample E a w = call E PoissonEncode (call E (Repeat (T_steps a)) w)"

definition process_model_output :: "('sd, 'b) env \<Rightarrow> args \<Rightarrow> 'sd world \<Rightarrow> 'sd world" where
  "process_model_output E a w = call E MeanOverTime w"

text \<open>Lines 186-198: \<open>scaler\<close> tells whether a gradient scaler was passed.\<close>

definition backward_and_step :: "('sd, 'b) env \<Rightarrow> args \<Rightarrow> bool \<Rightarrow> 'sd world \<Rightarrow> 'sd world" where
  "backward_and_step E a scaler w =
     (let w = call E ZeroGrad w in
      if scaler then
        (let w = call E ScaledBackward w;
             w = (case clip_grad_norm a of
                    None \<Rightarrow> w
                  | Some c \<Rightarrow> call E (ClipGradNorm c) (call E Unscale w));
             w = call E ScalerStep w
         in call E ScalerUpdate w)
      else
        (let w = call E Backward w;
             w = (case clip_grad_norm a of
                    None \<Rightarrow> w
                  | Some c \<Rightarrow> call E (ClipGradNorm c) w)
         in call E OptimizerStep w))"

definition update_metrics :: "real \<times> real \<times> real \<Rightarrow> nat \<Rightarrow> metric_logger \<Rightarrow> metric_logger" where
  "update_metrics obs n ml =
     (case obs of (loss, acc1, acc5) \<Rightarrow>
        \<lparr> loss_meter = meter_update loss 1 (loss_meter ml),
          acc1_meter = meter_update acc1 n (acc1_meter ml),
          acc5_meter = meter_update acc5 n (acc5_meter ml) \<rparr>)"

text \<open>The body of the loop of \<open>Trainer.train_one_epoch\<close>, lines 179-206.\<close>

definition train_batch ::
  "('sd, 'b) env \<Rightarrow> args \<Rightarrow> bool \<Rightarrow> 'sd world \<times> metric_logger \<Rightarrow> 'b \<Rightarrow>
   'sd world \<times> metric_logger" where
  "train_batch E a scaler st b =
     (let w = call E OneHot (fst st);
          w = preprocess_train_sample E a w;
          w = forward E w;
          w = process_model_output E a w;
          w = call E MSELoss w;
          obs = fw_observe E b (tensors w);
          w = backward_and_step E a scaler w;
          w = reset_net E w
      in (w, update_metrics obs (fw_batch_size E b) (snd st)))"

definition averages :: "metric_logger \<Rightarrow> real \<times> real \<times> real" where
  "averages ml =
     (global_avg (loss_meter ml), global_avg (acc1_meter ml), global_avg (acc5_meter ml))"

text \<open>\<open>Trainer.train_one_epoch\<close>, lines 171-211.\<close>

definition train_one_epoch ::
  "('sd, 'b) env \<Rightarrow> args \<Rightarrow> int \<Rightarrow> bool \<Rightarrow> 'sd world \<Rightarrow> 'sd world \<times> (real \<times> real \<times> real)" where
  "train_one_epoch E a epoch scaler w =
     (let st = foldl (train_batch E a scaler) (emit (TrainBegin epoch) w, empty_logger)
                 (train_batches E epoch);
          ml = synchronize_between_processes E (snd st)
      in (emit TrainEnd (fst st), averages ml))"

text \<open>The body of the loop of \<open>Trainer.evaluate\<close>, lines 222-235.\<close>

definition eval_batch ::
  "('sd, 'b) env \<Rightarrow> args \<Rightarrow> 'sd world \<times> metric_logger \<times> nat \<Rightarrow> 'b \<Rightarrow>
   'sd world \<times> metric_logger \<times> nat" where
  "eval_batch E a st b =
     (let w = call E OneHot (fst st);
          w = preprocess_test_sample E a w;
          w = forward E w;
          w = process_model_output E a w;
          w = call E MSELoss w;
          obs = fw_observe E b (tensors w);
          ml = update_metrics obs (fw_batch_size E b) (fst (snd st));
          num_processed_samples = snd (snd st) + fw_batch_size E b;
          w = reset_net E w
      in (w, ml, num_processed_samples))"

text \<open>\<open>Trainer.evaluate\<close>, lines 213-254.\<close>

definition evaluate ::
  "('sd, 'b) env \<Rightarrow> args \<Rightarrow> 'sd world \<Rightarrow> 'sd world \<times> (real \<times> real \<times> real)" where
  "evaluate E a w =
     (let st = foldl (eval_batch E a) (emit EvalBegin w, empty_logger, 0) (test_batches E);
          w = fst st;
          num_processed_samples = reduce_across_processes E (snd (snd st));
          w = (case test_dataset_len E of
                 None \<Rightarrow> w
               | Some len \<Rightarrow>
                   if len \<noteq> num_processed_samples \<and> is_main_process E
                   then emit (Warn len num_processed_samples) w else w);
          ml = synchronize_between_processes E (fst (snd st))
      in (emit EvalEnd w, averages ml))"

section \<open>Files\<close>

text \<open>
  \<open>os.makedirs(path, exist_ok=...)\<close>: an existing directory is an error unless
  \<open>exist_ok\<close>. Only the directory itself is recorded, not the intermediate directories.
\<close>

definition makedirs :: "string \<Rightarrow> bool \<Rightarrow> 'sd world \<Rightarrow> error + 'sd world" where
  "makedirs path exist_ok w =
     (if path \<in> dirs w then (if exist_ok then Inr w else Inl (FileExistsError path))
      else Inr (w\<lparr> dirs := insert path (dirs w) \<rparr>))"

text \<open>\<open>torch.save(obj, path)\<close> and \<open>torch.load(path)\<close>.\<close>

definition torch_save :: "'sd checkpoint \<Rightarrow> string \<Rightarrow> 'sd world \<Rightarrow> 'sd world" where
  "torch_save ck path w =
     emit (TorchSave path ck) (w\<lparr> files := (files w)(path \<mapsto> CheckpointFile ck) \<rparr>)"

definition torch_load :: "(string \<rightharpoonup> 'sd file_content) \<Rightarrow> string \<Rightarrow> error + 'sd checkpoint" where
  "torch_load fs path =
     (case fs path of
        None \<Rightarrow> Inl (FileNotFoundError path)
      | Some (CheckpointFile ck) \<Rightarrow> Inr ck
      | Some (ArgsFile x) \<Rightarrow> Inl (UnpicklingError path))"

text \<open>
  Modelled from the spec: \<open>utils.save_on_master\<close> is not among the source files.
  "Checkpoint writes and TensorBoard logging occur only on the coordinating process":
  it saves on the coordinating process and does nothing on any other.
\<close>

definition save_on_master ::
  "('sd, 'b) env \<Rightarrow> 'sd checkpoint \<Rightarrow> string \<Rightarrow> 'sd world \<Rightarrow> 'sd world" where
  "save_on_master E ck path w = (if is_main_process E then torch_save ck path w else w)"

section \<open>The epoch loop\<close>

text \<open>The three \<open>tb_writer.add_scalar\<close> calls of lines 138-140 and of lines 145-147.\<close>

definition add_scalars :: "string \<Rightarrow> real \<times> real \<times> real \<Rightarrow> int \<Rightarrow> 'sd world \<Rightarrow> 'sd world" where
  "add_scalars tag res epoch w =
     (case res of (loss, acc1, acc5) \<Rightarrow>
        emit (AddScalar (tag @ ''_acc5'') acc5 epoch)
          (emit (AddScalar (tag @ ''_acc1'') acc1 epoch)
             (emit (AddScalar (tag @ ''_loss'') loss epoch) w)))"

text \<open>The dict of lines 154-163.\<close>

definition make_checkpoint :: "args \<Rightarrow> int \<Rightarrow> real \<Rightarrow> 'sd world \<Rightarrow> 'sd checkpoint" where
  "make_checkpoint a epoch max_test_acc1 w =
     \<lparr> ck_model = model_sd (tensors w),
       ck_optimizer = optimizer_sd (tensors w),
       ck_lr_scheduler = lr_scheduler_sd (tensors w),
       ck_epoch = epoch,
       ck_args = a,
       ck_max_test_acc1 = max_test_acc1,
       ck_scaler = (if amp a then Some (scaler_sd (tensors w)) else None) \<rparr>"

text \<open>
  The body of the loop of \<open>Trainer.main\<close>, lines 132-169, on the pair of the world and
  \<open>max_test_acc1\<close>. The printed lines are left out.
\<close>

definition epoch_body ::
  "('sd, 'b) env \<Rightarrow> args \<Rightarrow> int \<Rightarrow> 'sd world \<times> real \<Rightarrow> 'sd world \<times> real" where
  "epoch_body E a epoch st =
     (let max_test_acc1 = snd st;
          w = (if distributed E then emit (SetEpoch epoch) (fst st) else fst st);
          tr = train_one_epoch E a epoch (amp a) w;
          w = (if is_main_process E then add_scalars ''train'' (snd tr) epoch (fst tr)
               else fst tr);
          w = call E LrSchedulerStep w;
          ev = evaluate E a w;
          test_acc1 = fst (snd (snd ev));
          w = (if is_main_process E then add_scalars ''test'' (snd ev) epoch (fst ev)
               else fst ev)
      in if is_main_process E then
           (let save_max_test_acc1 = (test_acc1 > max_test_acc1);
                max_test_acc1 = (if test_acc1 > max_test_acc1 then test_acc1
                                 else max_test_acc1);
                checkpoint = make_checkpoint a epoch max_test_acc1 w;
                w = save_on_master E checkpoint (latest_path (float_str E) a) w;
                w = (if save_max_test_acc1
                     then save_on_master E checkpoint (best_path (float_str E) a) w
                     else w)
            in (w, max_test_acc1))
         else (w, max_test_acc1))"

text \<open>\<open>for epoch in range(args.start_epoch, args.epochs)\<close>, line 131.\<close>

function epoch_loop ::
  "('sd, 'b) env \<Rightarrow> args \<Rightarrow> int \<Rightarrow> 'sd world \<times> real \<Rightarrow> 'sd world \<times> real" where
  "epoch_loop E a epoch st =
     (if epoch < epochs a then epoch_loop E a (epoch + 1) (epoch_body E a epoch st) else st)"
  by pat_completeness auto
termination
  by (relation "measure (\<lambda>(E, a, epoch, st). nat (epochs a - epoch))") auto

declare epoch_loop.simps [simp del]

section \<open>Set-up, resume and the run\<close>

text \<open>\<open>Trainer.load_model\<close>, lines 274-280: \<open>self.model_configs\<close> has the key \<open>mixer\<close> only.\<close>

definition load_model :: "args \<Rightarrow> error + unit" where
  "load_model a = (if model a = ''mixer'' then Inr () else Inl (KeyError (model a)))"

text \<open>Lines 44-92 of \<open>Trainer.main\<close>, as far as they can fail or touch the files.\<close>

definition build :: "args \<Rightarrow> 'sd world \<Rightarrow> error \<times> 'sd world + 'sd world" where
  "build a w =
     (case (if output_dir a \<noteq> [] then makedirs (output_dir a) True w else Inr w) of
        Inl e \<Rightarrow> Inl (e, w)
      | Inr w \<Rightarrow>
          (case load_model a of
             Inl e \<Rightarrow> Inl (e, w)
           | Inr m \<Rightarrow>
               (case set_optimizer a of
                  Inl e \<Rightarrow> Inl (e, w)
                | Inr optimizer \<Rightarrow>
                    (case set_lr_scheduler a of
                       Inl e \<Rightarrow> Inl (e, w)
                     | Inr sched \<Rightarrow> Inr w))))"

text \<open>Lines 104-106.\<close>

definition make_run_dirs ::
  "('sd, 'b) env \<Rightarrow> args \<Rightarrow> 'sd world \<Rightarrow> error \<times> 'sd world + 'sd world" where
  "make_run_dirs E a w =
     (if is_main_process E then
        (case makedirs (tb_dir (float_str E) a) (resume a \<noteq> None) w of
           Inl e \<Rightarrow> Inl (e, w)
         | Inr w \<Rightarrow>
             (case makedirs (pt_dir (float_str E) a) (resume a \<noteq> None) w of
                Inl e \<Rightarrow> Inl (e, w)
              | Inr w \<Rightarrow> Inr w))
      else Inr w)"

text \<open>
  Lines 108-122. The result is the namespace with its new \<open>start_epoch\<close>, the world and
  \<open>max_test_acc1\<close>.
\<close>

definition resume_from ::
  "('sd, 'b) env \<Rightarrow> args \<Rightarrow> string \<Rightarrow> 'sd world \<Rightarrow>
   error \<times> 'sd world + args \<times> 'sd world \<times> real" where
  "resume_from E a r w =
     (case torch_load (files w)
             (if r = ''latest'' then latest_path (float_str E) a else r) of
        Inl e \<Rightarrow> Inl (e, w)
      | Inr checkpoint \<Rightarrow>
          (let w = w\<lparr> tensors := (tensors w)\<lparr> model_sd := ck_model checkpoint \<rparr> \<rparr>;
               w = w\<lparr> tensors := (tensors w)\<lparr> optimizer_sd := ck_optimizer checkpoint \<rparr> \<rparr>;
               w = w\<lparr> tensors := (tensors w)\<lparr> lr_scheduler_sd := ck_lr_scheduler checkpoint \<rparr> \<rparr>;
               a = a\<lparr> start_epoch := ck_epoch checkpoint + 1 \<rparr>
           in if amp a then
                (case ck_scaler checkpoint of
                   None \<Rightarrow> Inl (KeyError ''scaler'', w)
                 | Some s \<Rightarrow>
                     Inr (a, w\<lparr> tensors := (tensors w)\<lparr> scaler_sd := s \<rparr> \<rparr>,
                          if is_main_process E then ck_max_test_acc1 checkpoint else - 1))
              else Inr (a, w, if is_main_process E then ck_max_test_acc1 checkpoint else - 1)))"

definition resume_state ::
  "('sd, 'b) env \<Rightarrow> args \<Rightarrow> 'sd world \<Rightarrow> error \<times> 'sd world + args \<times> 'sd world \<times> real" where
  "resume_state E a w =
     (case resume a of None \<Rightarrow> Inr (a, w, - 1) | Some r \<Rightarrow> resume_from E a r w)"

text \<open>Lines 124-129: the coordinating process writes \<open>args.txt\<close>.\<close>

definition write_args :: "('sd, 'b) env \<Rightarrow> args \<Rightarrow> 'sd world \<Rightarrow> 'sd world" where
  "write_args E a w =
     (if is_main_process E
      then w\<lparr> files := (files w)(args_txt (float_str E) a \<mapsto> ArgsFile a) \<rparr> else w)"

definition prepare ::
  "('sd, 'b) env \<Rightarrow> args \<Rightarrow> 'sd world \<Rightarrow> error \<times> 'sd world + args \<times> 'sd world \<times> real" where
  "prepare E a w =
     (case build a w of
        Inl ew \<Rightarrow> Inl ew
      | Inr w \<Rightarrow>
          (case make_run_dirs E a w of
             Inl ew \<Rightarrow> Inl ew
           | Inr w \<Rightarrow>
               (case resume_state E a w of
                  Inl ew \<Rightarrow> Inl ew
                | Inr (a, w, max_test_acc1) \<Rightarrow> Inr (a, write_args E a w, max_test_acc1))))"

text \<open>\<open>Trainer.main\<close>: the exception raised, if any, and the world it leaves.\<close>

definition main :: "('sd, 'b) env \<Rightarrow> args \<Rightarrow> 'sd world \<Rightarrow> error option \<times> 'sd world" where
  "main E a w =
     (case prepare E a w of
        Inl (e, w) \<Rightarrow> (Some e, w)
      | Inr (a, w, max_test_acc1) \<Rightarrow>
          (None, fst (epoch_loop E a (start_epoch a) (w, max_test_acc1))))"

section \<open>Notions the properties are stated with\<close>

text \<open>The events a step appends to the trace.\<close>

definition new_events :: "'sd world \<Rightarrow> 'sd world \<Rightarrow> 'sd event list" where
  "new_events w w' = drop (length (trace w)) (trace w')"

text \<open>The epochs whose training pass was entered, in order.\<close>

definition train_epoch_of :: "'sd event \<Rightarrow> int option" where
  "train_epoch_of ev = (case ev of TrainBegin e \<Rightarrow> Some e | _ \<Rightarrow> None)"

definition epochs_run :: "'sd event list \<Rightarrow> int list" where
  "epochs_run tr = List.map_filter train_epoch_of tr"

text \<open>The checkpoints saved, with their paths, in order.\<close>

definition saved_of :: "'sd event \<Rightarrow> (string \<times> 'sd checkpoint) option" where
  "saved_of ev = (case ev of TorchSave path ck \<Rightarrow> Some (path, ck) | _ \<Rightarrow> None)"

definition saves :: "'sd event list \<Rightarrow> (string \<times> 'sd checkpoint) list" where
  "saves tr = List.map_filter saved_of tr"

definition warning_of :: "'sd event \<Rightarrow> (nat \<times> nat) option" where
  "warning_of ev = (case ev of Warn len n \<Rightarrow> Some (len, n) | _ \<Rightarrow> None)"

definition warnings :: "'sd event list \<Rightarrow> (nat \<times> nat) list" where
  "warnings tr = List.map_filter warning_of tr"

text \<open>
  How far the epoch in progress has come: its training pass is running or has returned,
  the scheduler has been stepped after it, the evaluation pass is running or has
  returned. A checkpoint is in order when it is saved after the evaluation pass of the
  epoch it names has returned, and nothing but logging and saving has happened since;
  \<open>Bad\<close> records a checkpoint that was not.
\<close>

datatype phase =
    Idle
  | Training int
  | Trained int
  | Stepped int
  | Evaluating int
  | Evaluated int
  | Bad

definition phase_step :: "phase \<Rightarrow> 'sd event \<Rightarrow> phase" where
  "phase_step p ev =
     (if p = Bad then Bad
      else case ev of
        TorchSave path ck \<Rightarrow>
          (case p of Evaluated e \<Rightarrow> if ck_epoch ck = e then Evaluated e else Bad | _ \<Rightarrow> Bad)
      | TrainBegin e \<Rightarrow> Training e
      | TrainEnd \<Rightarrow> (case p of Training e \<Rightarrow> Trained e | _ \<Rightarrow> Idle)
      | LrSchedulerStep \<Rightarrow> (case p of Trained e \<Rightarrow> Stepped e | _ \<Rightarrow> Idle)
      | EvalBegin \<Rightarrow> (case p of Stepped e \<Rightarrow> Evaluating e | _ \<Rightarrow> Idle)
      | EvalEnd \<Rightarrow> (case p of Evaluating e \<Rightarrow> Evaluated e | _ \<Rightarrow> Idle)
      | AddScalar tag v e \<Rightarrow> p
      | Warn len n \<Rightarrow> p
      | _ \<Rightarrow> (case p of Training e \<Rightarrow> Training e | Evaluating e \<Rightarrow> Evaluating e | _ \<Rightarrow> Idle))"

definition phase_of :: "'sd event list \<Rightarrow> phase" where
  "phase_of tr = foldl phase_step Idle tr"

definition checkpoints_in_order :: "'sd event list \<Rightarrow> bool" where
  "checkpoints_in_order tr = (phase_of tr \<noteq> Bad)"

text \<open>
  The processing steps of a training batch as the specification lists them, and the
  event each one is observed as. \<open>scaler.step(optimizer)\<close> is the optimizer step under
  mixed precision.
\<close>

datatype step =
    Replicate_over_time int
  | Encode_to_spikes
  | Forward_pass
  | Average_over_time
  | MSE_against_one_hot
  | Backpropagate bool
  | Clip_gradient_norm real
  | Optimizer_step

definition step_of :: "'sd event \<Rightarrow> step option" where
  "step_of ev =
     (case ev of
        Repeat t \<Rightarrow> Some (Replicate_over_time t)
      | PoissonEncode \<Rightarrow> Some Encode_to_spikes
      | Forward d \<Rightarrow> Some Forward_pass
      | MeanOverTime \<Rightarrow> Some Average_over_time
      | MSELoss \<Rightarrow> Some MSE_against_one_hot
      | ScaledBackward \<Rightarrow> Some (Backpropagate True)
      | Backward \<Rightarrow> Some (Backpropagate False)
      | ClipGradNorm c \<Rightarrow> Some (Clip_gradient_norm c)
      | ScalerStep \<Rightarrow> Some Optimizer_step
      | OptimizerStep \<Rightarrow> Some Optimizer_step
      | _ \<Rightarrow> None)"

definition spec_batch_steps :: "args \<Rightarrow> step list" where
  "spec_batch_steps a =
     [Replicate_over_time (T_steps a), Encode_to_spikes, Forward_pass, Average_over_time,
      MSE_against_one_hot, Backpropagate (amp a)] @
     (case clip_grad_norm a of None \<Rightarrow> [] | Some c \<Rightarrow> [Clip_gradient_norm c]) @
     [Optimizer_step]"

text \<open>The events of one batch of either pass, and of a pass over \<open>n\<close> batches.\<close>

definition step_events :: "args \<Rightarrow> bool \<Rightarrow> 'sd event list" where
  "step_events a scaler =
     ZeroGrad #
     (if scaler then
        ScaledBackward #
        (case clip_grad_norm a of None \<Rightarrow> [] | Some c \<Rightarrow> [Unscale, ClipGradNorm c]) @
        [ScalerStep, ScalerUpdate]
      else
        Backward #
        (case clip_grad_norm a of None \<Rightarrow> [] | Some c \<Rightarrow> [ClipGradNorm c]) @
        [OptimizerStep])"

definition train_batch_events :: "args \<Rightarrow> bool \<Rightarrow> bool \<Rightarrow> 'sd event list" where
  "train_batch_events a scaler d =
     [OneHot, Repeat (T_steps a), PoissonEncode, Forward d, MeanOverTime, MSELoss] @
     step_events a scaler @ [ResetNet]"

definition eval_batch_events :: "args \<Rightarrow> bool \<Rightarrow> 'sd event list" where
  "eval_batch_events a d =
     [OneHot, Repeat (T_steps a), PoissonEncode, Forward d, MeanOverTime, MSELoss, ResetNet]"

fun pass_events :: "(bool \<Rightarrow> 'sd event list) \<Rightarrow> bool \<Rightarrow> nat \<Rightarrow> 'sd event list" where
  "pass_events f d 0 = []"
| "pass_events f d (Suc n) = f d @ pass_events f False n"

text \<open>The samples the evaluation pass counts, after the reduction across processes.\<close>

definition processed_samples :: "('sd, 'b) env \<Rightarrow> nat" where
  "processed_samples E =
     reduce_across_processes E (sum_list (map (fw_batch_size E) (test_batches E)))"

definition warn_events :: "('sd, 'b) env \<Rightarrow> 'sd event list" where
  "warn_events E =
     (case test_dataset_len E of
        None \<Rightarrow> []
      | Some len \<Rightarrow>
          if len \<noteq> processed_samples E \<and> is_main_process E
          then [Warn len (processed_samples E)] else [])"

text \<open>
  The stages of one epoch: the world when \<open>evaluate\<close> is called (after the training pass,
  its scalars and the scheduler step), the test top-1 accuracy \<open>evaluate\<close> returns, and
  the world when the checkpoint is built (after the evaluation pass and its scalars).
\<close>

definition before_eval :: "('sd, 'b) env \<Rightarrow> args \<Rightarrow> int \<Rightarrow> 'sd world \<Rightarrow> 'sd world" where
  "before_eval E a epoch w =
     (let w = (if distributed E then emit (SetEpoch epoch) w else w);
          tr = train_one_epoch E a epoch (amp a) w;
          w = (if is_main_process E then add_scalars ''train'' (snd tr) epoch (fst tr)
               else fst tr)
      in call E LrSchedulerStep w)"

definition epoch_test_acc1 :: "('sd, 'b) env \<Rightarrow> args \<Rightarrow> int \<Rightarrow> 'sd world \<Rightarrow> real" where
  "epoch_test_acc1 E a epoch w = fst (snd (snd (evaluate E a (before_eval E a epoch w))))"

definition after_eval :: "('sd, 'b) env \<Rightarrow> args \<Rightarrow> int \<Rightarrow> 'sd world \<Rightarrow> 'sd world" where
  "after_eval E a epoch w =
     (let ev = evaluate E a (before_eval E a epoch w)
      in if is_main_process E then add_scalars ''test'' (snd ev) epoch (fst ev) else fst ev)"

text \<open>The checkpoint the coordinating process builds at the end of an epoch.\<close>

definition epoch_checkpoint ::
  "('sd, 'b) env \<Rightarrow> args \<Rightarrow> int \<Rightarrow> 'sd world \<times> real \<Rightarrow> 'sd checkpoint" where
  "epoch_checkpoint E a epoch st =
     make_checkpoint a epoch (max (snd st) (epoch_test_acc1 E a epoch (fst st)))
       (after_eval E a epoch (fst st))"

text \<open>The epochs named by the checkpoints saved to a path, in the order of saving.\<close>

definition saved_epochs :: "string \<Rightarrow> 'sd event list \<Rightarrow> int list" where
  "saved_epochs path tr = map (\<lambda>x. ck_epoch (snd x)) (filter (\<lambda>x. fst x = path) (saves tr))"

text \<open>The processing steps in a trace, in order.\<close>

definition steps :: "'sd event list \<Rightarrow> step list" where
  "steps tr = List.map_filter step_of tr"

text \<open>
  From the world \<open>w\<close> to the world \<open>w'\<close> no forward pass has started on a network that
  still held temporal state, and \<open>w'\<close> holds none.
\<close>

definition clean_since :: "'sd world \<Rightarrow> 'sd world \<Rightarrow> bool" where
  "clean_since w w' =
     ((\<exists>evs. trace w' = trace w @ evs) \<and> Forward True \<notin> set (new_events w w') \<and>
      \<not> net_dirty w')"

text \<open>How often an event occurs in a trace.\<close>

definition occurrences :: "'sd event \<Rightarrow> 'sd event list \<Rightarrow> nat" where
  "occurrences ev tr = length (filter (\<lambda>x. x = ev) tr)"

text \<open>
  A process that starts in the state \<open>w0\<close> on the directories and files the world \<open>w\<close>
  has left.
\<close>

definition new_process :: "'sd world \<Rightarrow> 'sd world \<Rightarrow> 'sd world" where
  "new_process w0 w = w0\<lparr> dirs := dirs w, files := files w \<rparr>"

section \<open>The learning rate a scheduler sets\<close>


text \<open>
  The world in which the loss of an evaluation batch is computed (line 226), and the
  triples of loss, top-1 and top-5 accuracy the framework yields over the batches of
  an evaluation pass that starts in \<open>w\<close>.
\<close>

definition at_loss :: "('sd, 'b) env \<Rightarrow> args \<Rightarrow> 'sd world \<Rightarrow> 'sd world" where
  "at_loss E a w =
     call E MSELoss
       (process_model_output E a
          (forward E (preprocess_test_sample E a (call E OneHot w))))"

fun observations ::
  "('sd, 'b) env \<Rightarrow> args \<Rightarrow> 'sd world \<Rightarrow> 'b list \<Rightarrow> (real \<times> real \<times> real) list" where
  "observations E a w [] = []"
| "observations E a w (b # bs) =
     fw_observe E b (tensors (at_loss E a w)) #
     observations E a (reset_net E (at_loss E a w)) bs"

text \<open>
  The sample-weighted mean of the specification, and the logger that has gathered
  the triples \<open>obs\<close> of batches of the sizes \<open>ns\<close>: the loss with the weight 1 for each
  batch (line 231), the accuracies with the batch size (lines 232-233).
\<close>

definition weighted_total :: "real list \<Rightarrow> nat list \<Rightarrow> real" where
  "weighted_total vs ns = sum_list (map (\<lambda>x. fst x * real (snd x)) (zip vs ns))"

definition weighted_mean :: "real list \<Rightarrow> nat list \<Rightarrow> real" where
  "weighted_mean vs ns = weighted_total vs ns / real (sum_list ns)"

definition gathered :: "(real \<times> real \<times> real) list \<Rightarrow> nat list \<Rightarrow> metric_logger" where
  "gathered obs ns =
     \<lparr> loss_meter =
         \<lparr> meter_total = sum_list (map fst obs), meter_count = length obs \<rparr>,
       acc1_meter =
         \<lparr> meter_total = weighted_total (map (\<lambda>x. fst (snd x)) obs) ns,
           meter_count = sum_list ns \<rparr>,
       acc5_meter =
         \<lparr> meter_total = weighted_total (map (\<lambda>x. snd (snd x)) obs) ns,
           meter_count = sum_list ns \<rparr> \<rparr>"

text \<open>The keys a checkpoint of the configuration \<open>a\<close> is to hold.\<close>

definition expected_keys :: "args \<Rightarrow> string set" where
  "expected_keys a =
     {''model'', ''optimizer'', ''lr_scheduler'', ''epoch'', ''args'', ''max_test_acc1''} \<union>
     (if amp a then {''scaler''} else {})"

section \<open>A small run to evaluate\<close>

text \<open>
  A framework whose state dicts are counters: the optimizer step advances the model
  and the optimizer, the scaler update the scaler, the scheduler step the scheduler.
  Every batch is its own size and yields the loss 1/4 and the accuracies 1/2 and 1.
  The run is a single process, the coordinating one, or the second process of a
  distributed run over two processes that count the same number of samples.
\<close>

definition toy_effect :: "nat event \<Rightarrow> nat tensors \<Rightarrow> nat tensors" where
  "toy_effect ev t =
     (case ev of
        OptimizerStep \<Rightarrow> t\<lparr> model_sd := Suc (model_sd t), optimizer_sd := Suc (optimizer_sd t) \<rparr>
      | ScalerStep \<Rightarrow> t\<lparr> model_sd := Suc (model_sd t), optimizer_sd := Suc (optimizer_sd t) \<rparr>
      | ScalerUpdate \<Rightarrow> t\<lparr> scaler_sd := Suc (scaler_sd t) \<rparr>
      | LrSchedulerStep \<Rightarrow> t\<lparr> lr_scheduler_sd := Suc (lr_scheduler_sd t) \<rparr>
      | _ \<Rightarrow> t)"

definition toy_env :: "bool \<Rightarrow> (nat, nat) env" where
  "toy_env coordinator =
     \<lparr> is_main_process = coordinator, distributed = (\<not> coordinator),
       train_batches = (\<lambda>epoch. [2, 2]), test_batches = [2, 1],
       test_dataset_len = Some 5,
       reduce_across_processes = (\<lambda>n. if coordinator then n else 2 * n),
       synchronize_between_processes = (\<lambda>ml. ml), float_str = (\<lambda>x. ''0.1''),
       fw_effect = toy_effect, fw_observe = (\<lambda>b t. (1 / 4, 1 / 2, 1)),
       fw_batch_size = (\<lambda>b. b) \<rparr>"

definition fresh_world :: "nat world" where
  "fresh_world =
     \<lparr> tensors = \<lparr> model_sd = 0, optimizer_sd = 0, lr_scheduler_sd = 0, scaler_sd = 0 \<rparr>,
       net_dirty = False, dirs = {}, files = Map.empty, trace = [] \<rparr>"

text \<open>A two-epoch configuration, and a checkpoint of its first epoch.\<close>

definition short_args :: args where
  "short_args = default_args\<lparr> epochs := 2, lr_warmup_epochs := 0 \<rparr>"

definition toy_checkpoint :: "nat checkpoint" where
  "toy_checkpoint =
     \<lparr> ck_model = 2, ck_optimizer = 2, ck_lr_scheduler = 1, ck_epoch = 0,
       ck_args = short_args, ck_max_test_acc1 = 1 / 2, ck_scaler = None \<rparr>"

section \<open>Strings: lower-casing is case-insensitive matching\<close>

lemma map_of_zip_swap:
  "length xs = length ys \<Longrightarrow> distinct xs \<Longrightarrow> distinct ys \<Longrightarrow>
   (map_of (zip xs ys) c = Some e) = (map_of (zip ys xs) e = Some c)"
proof (induction xs ys rule: list_induct2)
  case Nil
  then show ?case by simp
next
  case (Cons x xs y ys)
  have a: "map_of (zip xs ys) c = Some e \<Longrightarrow> e \<noteq> y"
    using Cons.prems by (auto dest!: map_of_SomeD set_zip_rightD)
  have b: "map_of (zip ys xs) e = Some c \<Longrightarrow> c \<noteq> x"
    using Cons.prems by (auto dest!: map_of_SomeD set_zip_rightD)
  show ?case using Cons a b by auto
qed

lemma table_eq:
  assumes len: "length xs = length ys" and dx: "distinct xs" and dy: "distinct ys"
    and disj: "set xs \<inter> set ys = {}" and d: "d \<in> set ys"
  shows "((case map_of (zip xs ys) c of Some e \<Rightarrow> e | None \<Rightarrow> c) = d) =
         (c = d \<or> c = (case map_of (zip ys xs) d of Some e \<Rightarrow> e | None \<Rightarrow> d))"
proof -
  obtain u where u: "map_of (zip ys xs) d = Some u"
    using d len by (metis map_of_zip_is_Some not_Some_eq)
  have bk: "map_of (zip xs ys) u = Some d"
    using u map_of_zip_swap [OF len dx dy] by simp
  have dnone: "map_of (zip xs ys) d = None"
  proof (cases "map_of (zip xs ys) d")
    case None then show ?thesis .
  next
    case (Some e)
    then have "d \<in> set xs" by (auto dest!: map_of_SomeD set_zip_leftD)
    then show ?thesis using d disj by auto
  qed
  show ?thesis
  proof (cases "map_of (zip xs ys) c")
    case None
    then have "c \<noteq> u" using bk by auto
    then show ?thesis using None u by auto
  next
    case (Some e)
    then have cd: "c \<noteq> d" using dnone by auto
    have "(e = d) = (c = u)"
      using Some bk map_of_zip_swap [OF len dx dy, of c d] u by auto
    then show ?thesis using Some u cd by auto
  qed
qed

lemma lower_char_eq:
  assumes "d \<in> set lower_letters"
  shows "lower_char c = d \<longleftrightarrow> (c = d \<or> c = upper_char d)"
  unfolding lower_char_def upper_char_def
proof (rule table_eq [OF _ _ _ _ assms])
  show "length upper_letters = length lower_letters"
    by (simp add: upper_letters_def lower_letters_def)
  show "distinct upper_letters" by (simp add: upper_letters_def)
  show "distinct lower_letters" by (simp add: lower_letters_def)
  show "set upper_letters \<inter> set lower_letters = {}"
    by (simp add: upper_letters_def lower_letters_def)
qed

lemma lower_eq_ci_match:
  "set name \<subseteq> set lower_letters \<Longrightarrow> lower s = name \<longleftrightarrow> ci_match s name"
proof (induction s arbitrary: name)
  case Nil
  then show ?case by (auto simp add: lower_def ci_match_def)
next
  case (Cons c s)
  show ?case
  proof (cases name)
    case Nil
    then show ?thesis by (simp add: lower_def ci_match_def)
  next
    case (Cons d ds)
    then have d: "d \<in> set lower_letters" and ds: "set ds \<subseteq> set lower_letters"
      using Cons.prems by auto
    have "(lower s = ds) = ci_match s ds" using Cons.IH [OF ds] .
    then show ?thesis using lower_char_eq [OF d, of c] Cons
      by (simp add: lower_def ci_match_def)
  qed
qed

lemma lower_names:
  "lower s = ''sgd'' \<longleftrightarrow> ci_match s ''sgd''"
  "lower s = ''adamw'' \<longleftrightarrow> ci_match s ''adamw''"
  "lower s = ''step'' \<longleftrightarrow> ci_match s ''step''"
  "lower s = ''cosa'' \<longleftrightarrow> ci_match s ''cosa''"
  "lower s = ''exp'' \<longleftrightarrow> ci_match s ''exp''"
  by (rule lower_eq_ci_match, simp add: lower_letters_def)+

section \<open>What each step does to the world\<close>

lemma emit_fields [simp]:
  "trace (emit ev w) = trace w @ [ev]"
  "tensors (emit ev w) = tensors w"
  "net_dirty (emit ev w) = net_dirty w"
  "dirs (emit ev w) = dirs w"
  "files (emit ev w) = files w"
  by (simp_all add: emit_def)

lemma call_fields [simp]:
  "trace (call E ev w) = trace w @ [ev]"
  "tensors (call E ev w) = fw_effect E ev (tensors w)"
  "net_dirty (call E ev w) = net_dirty w"
  "dirs (call E ev w) = dirs w"
  "files (call E ev w) = files w"
  by (simp_all add: call_def)

lemma forward_fields [simp]:
  "trace (forward E w) = trace w @ [Forward (net_dirty w)]"
  "net_dirty (forward E w) = True"
  "dirs (forward E w) = dirs w"
  "files (forward E w) = files w"
  by (simp_all add: forward_def)

lemma reset_net_fields [simp]:
  "trace (reset_net E w) = trace w @ [ResetNet]"
  "net_dirty (reset_net E w) = False"
  "dirs (reset_net E w) = dirs w"
  "files (reset_net E w) = files w"
  by (simp_all add: reset_net_def)

lemma backward_and_step_fields [simp]:
  "trace (backward_and_step E a scaler w) = trace w @ step_events a scaler"
  "net_dirty (backward_and_step E a scaler w) = net_dirty w"
  "dirs (backward_and_step E a scaler w) = dirs w"
  "files (backward_and_step E a scaler w) = files w"
  by (simp_all add: backward_and_step_def step_events_def Let_def split: option.splits)

lemma train_batch_fields [simp]:
  "trace (fst (train_batch E a scaler st b)) =
     trace (fst st) @ train_batch_events a scaler (net_dirty (fst st))"
  "net_dirty (fst (train_batch E a scaler st b)) = False"
  "dirs (fst (train_batch E a scaler st b)) = dirs (fst st)"
  "files (fst (train_batch E a scaler st b)) = files (fst st)"
  by (simp_all add: train_batch_def train_batch_events_def preprocess_train_sample_def
        process_model_output_def Let_def)

lemma eval_batch_fields [simp]:
  "trace (fst (eval_batch E a st b)) = trace (fst st) @ eval_batch_events a (net_dirty (fst st))"
  "net_dirty (fst (eval_batch E a st b)) = False"
  "dirs (fst (eval_batch E a st b)) = dirs (fst st)"
  "files (fst (eval_batch E a st b)) = files (fst st)"
  "snd (snd (eval_batch E a st b)) = snd (snd st) + fw_batch_size E b"
  by (simp_all add: eval_batch_def eval_batch_events_def preprocess_test_sample_def
        process_model_output_def Let_def)

lemma train_fold_trace:
  "trace (fst (foldl (train_batch E a scaler) st bs)) =
     trace (fst st) @ pass_events (train_batch_events a scaler) (net_dirty (fst st)) (length bs)"
  by (induction bs arbitrary: st) simp_all

lemma train_fold_frame:
  "net_dirty (fst (foldl (train_batch E a scaler) st bs)) = (bs = [] \<and> net_dirty (fst st))"
  "dirs (fst (foldl (train_batch E a scaler) st bs)) = dirs (fst st)"
  "files (fst (foldl (train_batch E a scaler) st bs)) = files (fst st)"
  by (induction bs arbitrary: st) simp_all

lemma eval_fold_trace:
  "trace (fst (foldl (eval_batch E a) st bs)) =
     trace (fst st) @ pass_events (eval_batch_events a) (net_dirty (fst st)) (length bs)"
  by (induction bs arbitrary: st) simp_all

lemma eval_fold_frame:
  "net_dirty (fst (foldl (eval_batch E a) st bs)) = (bs = [] \<and> net_dirty (fst st))"
  "dirs (fst (foldl (eval_batch E a) st bs)) = dirs (fst st)"
  "files (fst (foldl (eval_batch E a) st bs)) = files (fst st)"
  "snd (snd (foldl (eval_batch E a) st bs)) = snd (snd st) + sum_list (map (fw_batch_size E) bs)"
  by (induction bs arbitrary: st) simp_all

lemma train_one_epoch_fields:
  "trace (fst (train_one_epoch E a epoch scaler w)) =
     trace w @ TrainBegin epoch #
       pass_events (train_batch_events a scaler) (net_dirty w) (length (train_batches E epoch)) @
       [TrainEnd]"
  "net_dirty (fst (train_one_epoch E a epoch scaler w)) =
     (train_batches E epoch = [] \<and> net_dirty w)"
  "dirs (fst (train_one_epoch E a epoch scaler w)) = dirs w"
  "files (fst (train_one_epoch E a epoch scaler w)) = files w"
  by (simp_all add: train_one_epoch_def Let_def train_fold_trace train_fold_frame)

lemma evaluate_fields:
  "trace (fst (evaluate E a w)) =
     trace w @ EvalBegin #
       pass_events (eval_batch_events a) (net_dirty w) (length (test_batches E)) @
       warn_events E @ [EvalEnd]"
  "net_dirty (fst (evaluate E a w)) = (test_batches E = [] \<and> net_dirty w)"
  "dirs (fst (evaluate E a w)) = dirs w"
  "files (fst (evaluate E a w)) = files w"
  by (simp_all add: evaluate_def Let_def eval_fold_trace eval_fold_frame warn_events_def
        processed_samples_def split: option.splits)

section \<open>Reading the trace\<close>

lemma epochs_run_append [simp]: "epochs_run (xs @ ys) = epochs_run xs @ epochs_run ys"
  by (simp add: epochs_run_def List.map_filter_def)

lemma epochs_run_Nil [simp]: "epochs_run [] = []"
  by (simp add: epochs_run_def map_filter_simps)

lemma epochs_run_Cons [simp]:
  "epochs_run (ev # tr) =
     (case train_epoch_of ev of None \<Rightarrow> epochs_run tr | Some e \<Rightarrow> e # epochs_run tr)"
  by (cases "train_epoch_of ev") (simp_all add: epochs_run_def map_filter_simps)

lemma saves_append [simp]: "saves (xs @ ys) = saves xs @ saves ys"
  by (simp add: saves_def List.map_filter_def)

lemma saves_Nil [simp]: "saves [] = []"
  by (simp add: saves_def map_filter_simps)

lemma saves_Cons [simp]:
  "saves (ev # tr) = (case saved_of ev of None \<Rightarrow> saves tr | Some x \<Rightarrow> x # saves tr)"
  by (cases "saved_of ev") (simp_all add: saves_def map_filter_simps)

lemma warnings_append [simp]: "warnings (xs @ ys) = warnings xs @ warnings ys"
  by (simp add: warnings_def List.map_filter_def)

lemma warnings_Nil [simp]: "warnings [] = []"
  by (simp add: warnings_def map_filter_simps)

lemma warnings_Cons [simp]:
  "warnings (ev # tr) = (case warning_of ev of None \<Rightarrow> warnings tr | Some x \<Rightarrow> x # warnings tr)"
  by (cases "warning_of ev") (simp_all add: warnings_def map_filter_simps)

lemma step_events_quiet [simp]:
  "epochs_run (step_events a scaler) = []"
  "saves (step_events a scaler) = []"
  "warnings (step_events a scaler) = []"
  by (simp_all add: step_events_def train_epoch_of_def saved_of_def warning_of_def
        split: option.splits)

lemma train_batch_events_quiet [simp]:
  "epochs_run (train_batch_events a scaler d) = []"
  "saves (train_batch_events a scaler d) = []"
  "warnings (train_batch_events a scaler d) = []"
  by (simp_all add: train_batch_events_def train_epoch_of_def saved_of_def warning_of_def)

lemma eval_batch_events_quiet [simp]:
  "epochs_run (eval_batch_events a d) = []"
  "saves (eval_batch_events a d) = []"
  "warnings (eval_batch_events a d) = []"
  by (simp_all add: eval_batch_events_def train_epoch_of_def saved_of_def warning_of_def)

lemma pass_events_quiet:
  assumes "\<And>d. epochs_run (f d) = []" "\<And>d. saves (f d) = []" "\<And>d. warnings (f d) = []"
  shows "epochs_run (pass_events f d n) = []"
    and "saves (pass_events f d n) = []"
    and "warnings (pass_events f d n) = []"
  using assms by (induction n arbitrary: d) simp_all

lemma warn_events_quiet [simp]:
  "epochs_run (warn_events E) = []"
  "saves (warn_events E) = []"
  by (simp_all add: warn_events_def train_epoch_of_def saved_of_def split: option.splits)

lemma train_one_epoch_reads:
  "epochs_run (trace (fst (train_one_epoch E a epoch scaler w))) = epochs_run (trace w) @ [epoch]"
  "saves (trace (fst (train_one_epoch E a epoch scaler w))) = saves (trace w)"
  "warnings (trace (fst (train_one_epoch E a epoch scaler w))) = warnings (trace w)"
  by (simp_all add: train_one_epoch_fields pass_events_quiet train_epoch_of_def saved_of_def
        warning_of_def)

lemma evaluate_reads:
  "epochs_run (trace (fst (evaluate E a w))) = epochs_run (trace w)"
  "saves (trace (fst (evaluate E a w))) = saves (trace w)"
  by (simp_all add: evaluate_fields pass_events_quiet train_epoch_of_def saved_of_def)

section \<open>The phase of the epoch in progress\<close>

lemma phase_of_append: "phase_of (xs @ ys) = foldl phase_step (phase_of xs) ys"
  by (simp add: phase_of_def)

lemma phase_step_Bad [simp]: "phase_step Bad ev = Bad"
  by (simp add: phase_step_def)

lemma phase_run_step_events:
  "foldl phase_step (Training e) (step_events a scaler) = Training e"
  by (simp add: step_events_def phase_step_def split: option.splits)

lemma phase_run_train_batch:
  "foldl phase_step (Training e) (train_batch_events a scaler d) = Training e"
  by (simp add: train_batch_events_def phase_run_step_events phase_step_def)

lemma phase_run_eval_batch:
  "foldl phase_step (Evaluating e) (eval_batch_events a d) = Evaluating e"
  by (simp add: eval_batch_events_def phase_step_def)

lemma phase_run_pass:
  assumes "\<And>d. foldl phase_step p (f d) = p"
  shows "foldl phase_step p (pass_events f d n) = p"
  using assms by (induction n arbitrary: d) simp_all

lemma phase_run_warn: "foldl phase_step p (warn_events E) = p"
  by (cases "p = Bad") (simp_all add: warn_events_def phase_step_def split: option.splits)

lemma phase_train_one_epoch:
  "phase_of (trace w) \<noteq> Bad \<Longrightarrow>
   phase_of (trace (fst (train_one_epoch E a epoch scaler w))) = Trained epoch"
  by (simp add: train_one_epoch_fields phase_of_append phase_run_pass phase_run_train_batch
        phase_step_def)

lemma phase_evaluate:
  "phase_of (trace w) = Stepped e \<Longrightarrow> phase_of (trace (fst (evaluate E a w))) = Evaluated e"
  by (simp add: evaluate_fields phase_of_append phase_run_pass phase_run_eval_batch
        phase_run_warn phase_step_def)

section \<open>One epoch\<close>

lemma add_scalars_fields [simp]:
  "tensors (add_scalars tag res epoch w) = tensors w"
  "net_dirty (add_scalars tag res epoch w) = net_dirty w"
  "dirs (add_scalars tag res epoch w) = dirs w"
  "files (add_scalars tag res epoch w) = files w"
  "epochs_run (trace (add_scalars tag res epoch w)) = epochs_run (trace w)"
  "saves (trace (add_scalars tag res epoch w)) = saves (trace w)"
  "warnings (trace (add_scalars tag res epoch w)) = warnings (trace w)"
  "phase_of (trace (add_scalars tag res epoch w)) = phase_of (trace w)"
  by (simp_all add: add_scalars_def train_epoch_of_def saved_of_def warning_of_def
        phase_of_append phase_step_def split: prod.splits)

lemma torch_save_fields [simp]:
  "tensors (torch_save ck path w) = tensors w"
  "net_dirty (torch_save ck path w) = net_dirty w"
  "dirs (torch_save ck path w) = dirs w"
  "files (torch_save ck path w) = (files w)(path \<mapsto> CheckpointFile ck)"
  "trace (torch_save ck path w) = trace w @ [TorchSave path ck]"
  by (simp_all add: torch_save_def)

lemma join2_inject: "b \<noteq> c \<Longrightarrow> hd b \<noteq> CHR ''/'' \<Longrightarrow> hd c \<noteq> CHR ''/'' \<Longrightarrow> join2 p b \<noteq> join2 p c"
  by (simp add: join2_def)

lemma latest_not_best: "latest_path fstr a \<noteq> best_path fstr a"
  by (simp add: latest_path_def best_path_def path_join_def join2_inject)

lemma epoch_body_unfold:
  "epoch_body E a epoch st =
     (if is_main_process E then
        (let ck = epoch_checkpoint E a epoch st;
             w = torch_save ck (latest_path (float_str E) a) (after_eval E a epoch (fst st))
         in (if epoch_test_acc1 E a epoch (fst st) > snd st
             then torch_save ck (best_path (float_str E) a) w else w,
             max (snd st) (epoch_test_acc1 E a epoch (fst st))))
      else (after_eval E a epoch (fst st), snd st))"
  by (simp add: epoch_body_def epoch_checkpoint_def after_eval_def epoch_test_acc1_def
        before_eval_def save_on_master_def Let_def max_def)

lemma before_eval_reads:
  "epochs_run (trace (before_eval E a epoch w)) = epochs_run (trace w) @ [epoch]"
  "saves (trace (before_eval E a epoch w)) = saves (trace w)"
  "dirs (before_eval E a epoch w) = dirs w"
  "files (before_eval E a epoch w) = files w"
  by (simp_all add: before_eval_def Let_def train_one_epoch_reads train_one_epoch_fields(3,4)
        train_epoch_of_def saved_of_def)

lemma phase_before_eval:
  "phase_of (trace w) \<noteq> Bad \<Longrightarrow> phase_of (trace (before_eval E a epoch w)) = Stepped epoch"
proof -
  assume ok: "phase_of (trace w) \<noteq> Bad"
  define w1 where "w1 = (if distributed E then emit (SetEpoch epoch) w else w)"
  have "phase_of (trace w1) \<noteq> Bad"
    using ok by (cases "phase_of (trace w)") (simp_all add: w1_def phase_of_append phase_step_def)
  then have "phase_of (trace (fst (train_one_epoch E a epoch (amp a) w1))) = Trained epoch"
    by (rule phase_train_one_epoch)
  then show ?thesis
    by (simp add: before_eval_def Let_def w1_def [symmetric] phase_of_append phase_step_def)
qed

lemma after_eval_reads:
  "epochs_run (trace (after_eval E a epoch w)) = epochs_run (trace w) @ [epoch]"
  "saves (trace (after_eval E a epoch w)) = saves (trace w)"
  "dirs (after_eval E a epoch w) = dirs w"
  "files (after_eval E a epoch w) = files w"
  by (simp_all add: after_eval_def Let_def evaluate_reads evaluate_fields(3,4) before_eval_reads)

lemma phase_after_eval:
  "phase_of (trace w) \<noteq> Bad \<Longrightarrow> phase_of (trace (after_eval E a epoch w)) = Evaluated epoch"
  by (simp add: after_eval_def Let_def phase_evaluate [OF phase_before_eval])

lemma epoch_checkpoint_epoch [simp]: "ck_epoch (epoch_checkpoint E a epoch st) = epoch"
  by (simp add: epoch_checkpoint_def make_checkpoint_def)

lemma epoch_body_reads:
  "epochs_run (trace (fst (epoch_body E a epoch st))) = epochs_run (trace (fst st)) @ [epoch]"
  "dirs (fst (epoch_body E a epoch st)) = dirs (fst st)"
  by (simp_all add: epoch_body_unfold Let_def after_eval_reads train_epoch_of_def)

lemma epoch_body_saves:
  "saves (trace (fst (epoch_body E a epoch st))) =
     saves (trace (fst st)) @
     (if is_main_process E then
        (latest_path (float_str E) a, epoch_checkpoint E a epoch st) #
        (if epoch_test_acc1 E a epoch (fst st) > snd st
         then [(best_path (float_str E) a, epoch_checkpoint E a epoch st)] else [])
      else [])"
  by (simp add: epoch_body_unfold Let_def after_eval_reads saved_of_def)

lemma epoch_body_files:
  "files (fst (epoch_body E a epoch st)) =
     (if is_main_process E then
        (if epoch_test_acc1 E a epoch (fst st) > snd st
         then (files (fst st))
                (latest_path (float_str E) a \<mapsto> CheckpointFile (epoch_checkpoint E a epoch st),
                 best_path (float_str E) a \<mapsto> CheckpointFile (epoch_checkpoint E a epoch st))
         else (files (fst st))
                (latest_path (float_str E) a \<mapsto> CheckpointFile (epoch_checkpoint E a epoch st)))
      else files (fst st))"
  by (simp add: epoch_body_unfold Let_def after_eval_reads)

lemma phase_epoch_body:
  "phase_of (trace (fst st)) \<noteq> Bad \<Longrightarrow>
   phase_of (trace (fst (epoch_body E a epoch st))) = Evaluated epoch"
  by (simp add: epoch_body_unfold Let_def phase_after_eval phase_of_append phase_step_def)

section \<open>The loop over the epochs\<close>

lemma epoch_loop_run:
  "epochs_run (trace (fst (epoch_loop E a epoch st))) =
     epochs_run (trace (fst st)) @ [epoch..epochs a - 1]"
proof (induction E a epoch st rule: epoch_loop.induct)
  case (1 E a epoch st)
  show ?case
  proof (cases "epoch < epochs a")
    case True
    have "[epoch..epochs a - 1] = epoch # [epoch + 1..epochs a - 1]"
      using True by (simp add: upto_rec1)
    then show ?thesis
      using True "1.IH" [OF True] by (simp add: epoch_loop.simps [of E a epoch] epoch_body_reads)
  next
    case False
    then show ?thesis by (simp add: epoch_loop.simps [of E a epoch])
  qed
qed

lemma epoch_loop_phase:
  "phase_of (trace (fst st)) \<noteq> Bad \<Longrightarrow>
   phase_of (trace (fst (epoch_loop E a epoch st))) \<noteq> Bad"
proof (induction E a epoch st rule: epoch_loop.induct)
  case (1 E a epoch st)
  show ?case
  proof (cases "epoch < epochs a")
    case True
    have "phase_of (trace (fst (epoch_body E a epoch st))) \<noteq> Bad"
      using phase_epoch_body [OF "1.prems", of E a epoch] by simp
    then show ?thesis
      using True "1.IH" [OF True] by (simp add: epoch_loop.simps [of E a epoch])
  next
    case False
    then show ?thesis using "1.prems" by (simp add: epoch_loop.simps [of E a epoch])
  qed
qed

lemma epoch_loop_dirs: "dirs (fst (epoch_loop E a epoch st)) = dirs (fst st)"
proof (induction E a epoch st rule: epoch_loop.induct)
  case (1 E a epoch st)
  then show ?case
    by (cases "epoch < epochs a") (simp_all add: epoch_loop.simps [of E a epoch] epoch_body_reads)
qed

lemma epoch_loop_quiet:
  "\<not> is_main_process E \<Longrightarrow>
   files (fst (epoch_loop E a epoch st)) = files (fst st) \<and>
   saves (trace (fst (epoch_loop E a epoch st))) = saves (trace (fst st)) \<and>
   snd (epoch_loop E a epoch st) = snd st"
proof (induction E a epoch st rule: epoch_loop.induct)
  case (1 E a epoch st)
  then show ?case
    by (cases "epoch < epochs a")
       (simp_all add: epoch_loop.simps [of E a epoch] epoch_body_files epoch_body_saves,
        simp add: epoch_body_unfold)
qed

section \<open>Set-up and resume\<close>

lemma makedirs_world:
  "makedirs path ok w = Inr w1 \<Longrightarrow>
   trace w1 = trace w \<and> files w1 = files w \<and> tensors w1 = tensors w \<and>
   net_dirty w1 = net_dirty w \<and> dirs w1 = insert path (dirs w)"
  by (auto simp add: makedirs_def split: if_splits)

lemma build_Inr:
  "build a w = Inr w1 \<Longrightarrow>
   trace w1 = trace w \<and> files w1 = files w \<and> tensors w1 = tensors w \<and>
   net_dirty w1 = net_dirty w \<and> dirs w \<subseteq> dirs w1 \<and>
   load_model a = Inr () \<and> (\<exists>x. set_optimizer a = Inr x) \<and> (\<exists>x. set_lr_scheduler a = Inr x)"
  by (auto simp add: build_def split: if_splits sum.splits dest!: makedirs_world)

lemma build_Inl:
  "build a w = Inl (e, w1) \<Longrightarrow>
   trace w1 = trace w \<and> files w1 = files w \<and>
   (load_model a = Inl e \<or> set_optimizer a = Inl e \<or> set_lr_scheduler a = Inl e)"
  by (auto simp add: build_def makedirs_def split: if_splits sum.splits)

lemma make_run_dirs_Inr:
  "make_run_dirs E a w = Inr w1 \<Longrightarrow>
   trace w1 = trace w \<and> files w1 = files w \<and> tensors w1 = tensors w \<and>
   net_dirty w1 = net_dirty w \<and>
   (is_main_process E \<longrightarrow> tb_dir (float_str E) a \<in> dirs w1 \<and> pt_dir (float_str E) a \<in> dirs w1)"
  by (auto simp add: make_run_dirs_def split: if_splits sum.splits dest!: makedirs_world)

lemma make_run_dirs_Inl:
  "make_run_dirs E a w = Inl (e, w1) \<Longrightarrow> trace w1 = trace w \<and> files w1 = files w"
  by (auto simp add: make_run_dirs_def split: if_splits sum.splits dest!: makedirs_world)

lemma make_run_dirs_exists:
  "is_main_process E \<Longrightarrow> resume a = None \<Longrightarrow> tb_dir (float_str E) a \<in> dirs w \<Longrightarrow>
   make_run_dirs E a w = Inl (FileExistsError (tb_dir (float_str E) a), w)"
  by (simp add: make_run_dirs_def makedirs_def)

lemma resume_from_Inr:
  assumes "resume_from E a r w = Inr (a1, w1, mx)"
  shows "\<exists>ck. torch_load (files w)
                (if r = ''latest'' then latest_path (float_str E) a else r) = Inr ck \<and>
              a1 = a\<lparr> start_epoch := ck_epoch ck + 1 \<rparr> \<and>
              model_sd (tensors w1) = ck_model ck \<and>
              optimizer_sd (tensors w1) = ck_optimizer ck \<and>
              lr_scheduler_sd (tensors w1) = ck_lr_scheduler ck \<and>
              (if amp a then ck_scaler ck = Some (scaler_sd (tensors w1))
               else scaler_sd (tensors w1) = scaler_sd (tensors w)) \<and>
              mx = (if is_main_process E then ck_max_test_acc1 ck else - 1) \<and>
              trace w1 = trace w \<and> files w1 = files w \<and> dirs w1 = dirs w \<and>
              net_dirty w1 = net_dirty w"
  using assms
  by (auto simp add: resume_from_def Let_def split: sum.splits option.splits if_splits)

lemma resume_from_Inl:
  "resume_from E a r w = Inl (e, w1) \<Longrightarrow> trace w1 = trace w \<and> files w1 = files w"
  by (auto simp add: resume_from_def Let_def split: sum.splits option.splits if_splits)

lemma resume_state_Inl:
  "resume_state E a w = Inl (e, w1) \<Longrightarrow> trace w1 = trace w \<and> files w1 = files w"
  by (auto simp add: resume_state_def split: option.splits dest: resume_from_Inl)

lemma resume_state_Inr:
  "resume_state E a w = Inr (a1, w1, mx) \<Longrightarrow>
   trace w1 = trace w \<and> files w1 = files w \<and> dirs w1 = dirs w \<and> epochs a1 = epochs a \<and>
   net_dirty w1 = net_dirty w"
  by (auto simp add: resume_state_def split: option.splits dest!: resume_from_Inr)

lemma write_args_fields [simp]:
  "trace (write_args E a w) = trace w"
  "tensors (write_args E a w) = tensors w"
  "net_dirty (write_args E a w) = net_dirty w"
  "dirs (write_args E a w) = dirs w"
  by (simp_all add: write_args_def)

lemma prepare_Inl:
  "prepare E a w = Inl (e, w1) \<Longrightarrow> trace w1 = trace w \<and> files w1 = files w"
  by (auto simp add: prepare_def split: sum.splits
        dest!: build_Inl build_Inr make_run_dirs_Inl make_run_dirs_Inr resume_state_Inl)

lemma prepare_Inr:
  assumes "prepare E a w = Inr (a1, w1, mx)"
  shows "trace w1 = trace w \<and> epochs a1 = epochs a \<and> net_dirty w1 = net_dirty w \<and>
         (\<not> is_main_process E \<longrightarrow> files w1 = files w) \<and>
         (is_main_process E \<longrightarrow> tb_dir (float_str E) a \<in> dirs w1 \<and>
            pt_dir (float_str E) a \<in> dirs w1)"
proof -
  from assms obtain wa wb wc where a: "build a w = Inr wa"
    and b: "make_run_dirs E a wa = Inr wb"
    and c: "resume_state E a wb = Inr (a1, wc, mx)" and w1: "w1 = write_args E a1 wc"
    by (auto simp add: prepare_def split: sum.splits)
  show ?thesis
    using build_Inr [OF a] make_run_dirs_Inr [OF b] resume_state_Inr [OF c] w1
    by (simp add: write_args_def)
qed

lemma prepare_resume:
  assumes "prepare E a w = Inr (a1, w1, mx)" and "resume a = Some r"
  shows "\<exists>ck. torch_load (files w)
                (if r = ''latest'' then latest_path (float_str E) a else r) = Inr ck \<and>
              start_epoch a1 = ck_epoch ck + 1"
proof -
  from assms obtain wa wb wc where a: "build a w = Inr wa"
    and b: "make_run_dirs E a wa = Inr wb"
    and c: "resume_from E a r wb = Inr (a1, wc, mx)"
    by (auto simp add: prepare_def resume_state_def split: sum.splits)
  have "files wb = files w"
    using build_Inr [OF a] make_run_dirs_Inr [OF b] by simp
  then show ?thesis
    using resume_from_Inr [OF c] by auto
qed

lemma main_world:
  "trace (snd (main E a w)) =
     (case prepare E a w of
        Inl ew \<Rightarrow> trace w
      | Inr x \<Rightarrow> trace (fst (epoch_loop E (fst x) (start_epoch (fst x)) (fst (snd x), snd (snd x)))))"
  by (auto simp add: main_def split: sum.splits dest: prepare_Inl)

section \<open>Traces only grow\<close>

lemma epoch_body_extends:
  "\<exists>evs. trace (fst (epoch_body E a epoch st)) = trace (fst st) @ evs"
  by (simp add: epoch_body_unfold Let_def after_eval_def before_eval_def add_scalars_def
        evaluate_fields train_one_epoch_fields split: prod.splits)

lemma epoch_loop_extends:
  "\<exists>evs. trace (fst (epoch_loop E a epoch st)) = trace (fst st) @ evs"
proof (induction E a epoch st rule: epoch_loop.induct)
  case (1 E a epoch st)
  show ?case
  proof (cases "epoch < epochs a")
    case True
    obtain xs where xs: "trace (fst (epoch_body E a epoch st)) = trace (fst st) @ xs"
      using epoch_body_extends by blast
    obtain ys where "trace (fst (epoch_loop E a (epoch + 1) (epoch_body E a epoch st))) =
        trace (fst (epoch_body E a epoch st)) @ ys"
      using "1.IH" [OF True] by blast
    then show ?thesis using True xs by (simp add: epoch_loop.simps [of E a epoch])
  next
    case False
    then show ?thesis by (simp add: epoch_loop.simps [of E a epoch])
  qed
qed

lemma main_extends: "\<exists>evs. trace (snd (main E a w)) = trace w @ evs"
proof (cases "prepare E a w")
  case (Inl ew)
  then show ?thesis by (simp add: main_world)
next
  case (Inr x)
  obtain a1 w1 mx where x: "x = (a1, w1, mx)" by (cases x) auto
  have "trace w1 = trace w" using prepare_Inr Inr x by blast
  then show ?thesis
    using epoch_loop_extends [of E a1 "start_epoch a1" "(w1, mx)"] Inr x
    by (simp add: main_world)
qed

lemma new_events_append: "trace w' = trace w @ evs \<Longrightarrow> new_events w w' = evs"
  by (simp add: new_events_def)

section \<open>The small run, evaluated\<close>

lemma toy_names [simp]:
  "lower ''sgd'' = ''sgd''" "lower ''cosa'' = ''cosa''"
  by (simp_all add: lower_def lower_char_def upper_letters_def lower_letters_def)

lemma short_args_fields [simp]:
  "model short_args = ''mixer''" "opt short_args = ''sgd''"
  "lr_scheduler short_args = ''cosa''" "lr_warmup_epochs short_args = 0"
  "output_dir short_args = ''./logs''" "epochs short_args = 2" "amp short_args = False"
  "clip_grad_norm short_args = None" "T_steps short_args = 4"
  "lr short_args = 1 / 10" "momentum short_args = 9 / 10" "weight_decay short_args = 0"
  "lr_warmup_method short_args = ''linear''" "lr_warmup_decay short_args = 1 / 100"
  "resume short_args = None"
  by (simp_all add: short_args_def default_args_def)

lemma toy_env_fields [simp]:
  "is_main_process (toy_env c) = c" "distributed (toy_env c) = (\<not> c)"
  "train_batches (toy_env c) = (\<lambda>epoch. [2, 2])" "test_batches (toy_env c) = [2, 1]"
  "test_dataset_len (toy_env c) = Some 5"
  "reduce_across_processes (toy_env c) = (\<lambda>n. if c then n else 2 * n)"
  "synchronize_between_processes (toy_env c) = (\<lambda>ml. ml)"
  "float_str (toy_env c) = (\<lambda>x. ''0.1'')" "fw_effect (toy_env c) = toy_effect"
  "fw_observe (toy_env c) = (\<lambda>b t. (1 / 4, 1 / 2, 1))" "fw_batch_size (toy_env c) = (\<lambda>b. b)"
  by (simp_all add: toy_env_def)

lemma short_args_build:
  "build (short_args\<lparr> resume := r \<rparr>) w = Inr (w\<lparr> dirs := insert ''./logs'' (dirs w) \<rparr>)"
  by (simp add: build_def makedirs_def load_model_def set_optimizer_def torch_SGD_def
        set_lr_scheduler_def main_lr_scheduler_def insert_absorb)

section \<open>The events of a step\<close>

lemma new_events_reads:
  assumes "\<exists>evs. trace w' = trace w @ evs"
  shows "saves (trace w') = saves (trace w) @ xs \<Longrightarrow> saves (new_events w w') = xs"
    and "epochs_run (trace w') = epochs_run (trace w) @ ys \<Longrightarrow> epochs_run (new_events w w') = ys"
    and "warnings (trace w') = warnings (trace w) @ zs \<Longrightarrow> warnings (new_events w w') = zs"
  using assms by (auto simp add: new_events_def)

lemma epoch_body_new_saves:
  "saves (new_events (fst st) (fst (epoch_body E a epoch st))) =
     (if is_main_process E then
        (latest_path (float_str E) a, epoch_checkpoint E a epoch st) #
        (if epoch_test_acc1 E a epoch (fst st) > snd st
         then [(best_path (float_str E) a, epoch_checkpoint E a epoch st)] else [])
      else [])"
  by (rule new_events_reads(1) [OF epoch_body_extends]) (simp add: epoch_body_saves)

lemma saved_epochs_append [simp]:
  "saved_epochs path (xs @ ys) = saved_epochs path xs @ saved_epochs path ys"
  by (simp add: saved_epochs_def)

lemma epoch_body_saved_epochs:
  "saved_epochs (latest_path (float_str E) a) (trace (fst (epoch_body E a epoch st))) =
     saved_epochs (latest_path (float_str E) a) (trace (fst st)) @
     (if is_main_process E then [epoch] else [])"
  using latest_not_best [of "float_str E" a]
  by (auto simp add: saved_epochs_def epoch_body_saves)

lemma epoch_loop_saved_epochs:
  "saved_epochs (latest_path (float_str E) a) (trace (fst (epoch_loop E a epoch st))) =
     saved_epochs (latest_path (float_str E) a) (trace (fst st)) @
     (if is_main_process E then [epoch..epochs a - 1] else [])"
proof (induction E a epoch st rule: epoch_loop.induct)
  case (1 E a epoch st)
  show ?case
  proof (cases "epoch < epochs a")
    case True
    have "[epoch..epochs a - 1] = epoch # [epoch + 1..epochs a - 1]"
      using True by (simp add: upto_rec1)
    then show ?thesis
      using True "1.IH" [OF True]
      by (simp add: epoch_loop.simps [of E a epoch] epoch_body_saved_epochs)
  next
    case False
    then show ?thesis by (simp add: epoch_loop.simps [of E a epoch])
  qed
qed

lemma new_events_saved_epochs:
  assumes "\<exists>evs. trace w' = trace w @ evs"
    and "saved_epochs path (trace w') = saved_epochs path (trace w) @ xs"
  shows "saved_epochs path (new_events w w') = xs"
  using assms by (auto simp add: new_events_def)

lemma main_phase:
  "phase_of (trace w) \<noteq> Bad \<Longrightarrow> phase_of (trace (snd (main E a w))) \<noteq> Bad"
proof (cases "prepare E a w")
  case (Inl ew)
  assume "phase_of (trace w) \<noteq> Bad"
  then show ?thesis using Inl by (simp add: main_world)
next
  case (Inr x)
  assume ok: "phase_of (trace w) \<noteq> Bad"
  obtain a1 w1 mx where x: "x = (a1, w1, mx)" by (cases x) auto
  have "trace w1 = trace w" using prepare_Inr Inr x by blast
  then show ?thesis
    using epoch_loop_phase [of "(w1, mx)" E a1 "start_epoch a1"] ok Inr x
    by (simp add: main_world)
qed

lemma toy_evaluate: "snd (evaluate (toy_env c) a w) = (1 / 4, 1 / 2, 1)"
  by (simp add: evaluate_def Let_def eval_batch_def update_metrics_def meter_update_def
        averages_def global_avg_def empty_logger_def empty_meter_def)

lemma toy_test_acc1: "epoch_test_acc1 (toy_env c) a epoch w = 1 / 2"
  by (simp add: epoch_test_acc1_def toy_evaluate)

section \<open>Resuming\<close>

text \<open>
  C1. On resume, after loading a checkpoint whose epoch field is \<open>e\<close>, \<open>start_epoch\<close> is set
  to \<open>e + 1\<close>, and a run that gets through its set-up then enters the training pass of
  exactly the epochs \<open>e + 1, ..., epochs - 1\<close>, in this order: none twice, none left out.
  After the epochs \<open>0, ..., e\<close> of the run that wrote the checkpoint, these are exactly
  the remaining ones.
\<close>

theorem resume_runs_remaining_epochs:
  assumes "resume a = Some r"
    and "torch_load (files w) (if r = ''latest'' then latest_path (float_str E) a else r) = Inr ck"
    and "prepare E a w = Inr (a1, w1, mx)"
  shows "start_epoch a1 = ck_epoch ck + 1 \<and>
         fst (main E a w) = None \<and>
         epochs_run (new_events w (snd (main E a w))) = [ck_epoch ck + 1..epochs a - 1] \<and>
         distinct (epochs_run (new_events w (snd (main E a w)))) \<and>
         (0 \<le> ck_epoch ck + 1 \<and> ck_epoch ck < epochs a \<longrightarrow>
            [0..ck_epoch ck] @ epochs_run (new_events w (snd (main E a w))) = [0..epochs a - 1])"
proof -
  have s: "start_epoch a1 = ck_epoch ck + 1"
    using prepare_resume [OF assms(3) assms(1)] assms(2) by auto
  have p: "trace w1 = trace w" "epochs a1 = epochs a"
    using prepare_Inr [OF assms(3)] by simp_all
  have m: "main E a w = (None, fst (epoch_loop E a1 (start_epoch a1) (w1, mx)))"
    using assms(3) by (simp add: main_def)
  obtain evs where evs: "trace (snd (main E a w)) = trace w @ evs"
    using main_extends by blast
  have "epochs_run (trace (snd (main E a w))) = epochs_run (trace w) @ [ck_epoch ck + 1..epochs a - 1]"
    using epoch_loop_run [of E a1 "start_epoch a1" "(w1, mx)"] m s p by simp
  then have r: "epochs_run evs = [ck_epoch ck + 1..epochs a - 1]"
    using evs by simp
  have n: "new_events w (snd (main E a w)) = evs"
    using evs by (rule new_events_append)
  have j: "0 \<le> ck_epoch ck + 1 \<and> ck_epoch ck < epochs a \<longrightarrow>
      [0..ck_epoch ck] @ [ck_epoch ck + 1..epochs a - 1] = [0..epochs a - 1]"
  proof (cases "0 \<le> ck_epoch ck")
    case True
    then show ?thesis using upto_split2 [of 0 "ck_epoch ck" "epochs a - 1"] by auto
  next
    case False
    show ?thesis
    proof
      assume h: "0 \<le> ck_epoch ck + 1 \<and> ck_epoch ck < epochs a"
      then have "ck_epoch ck = - 1" using False by arith
      then show "[0..ck_epoch ck] @ [ck_epoch ck + 1..epochs a - 1] = [0..epochs a - 1]"
        by simp
    qed
  qed
  show ?thesis using s m r n j by simp
qed

theorem resume_runs_remaining_epochs_witness:
  "resume (short_args\<lparr> resume := Some ''ck.pth'' \<rparr>) = Some ''ck.pth'' \<and>
   torch_load (files (fresh_world\<lparr> files := [''ck.pth'' \<mapsto> CheckpointFile toy_checkpoint] \<rparr>))
     ''ck.pth'' = Inr toy_checkpoint \<and>
   (\<exists>a1 w1 mx. prepare (toy_env False) (short_args\<lparr> resume := Some ''ck.pth'' \<rparr>)
      (fresh_world\<lparr> files := [''ck.pth'' \<mapsto> CheckpointFile toy_checkpoint] \<rparr>) =
      Inr (a1, w1, mx)) \<and>
   epochs_run (new_events (fresh_world\<lparr> files := [''ck.pth'' \<mapsto> CheckpointFile toy_checkpoint] \<rparr>)
     (snd (main (toy_env False) (short_args\<lparr> resume := Some ''ck.pth'' \<rparr>)
        (fresh_world\<lparr> files := [''ck.pth'' \<mapsto> CheckpointFile toy_checkpoint] \<rparr>)))) = [1]"
proof -
  let ?a = "short_args\<lparr> resume := Some ''ck.pth'' \<rparr>"
  let ?w = "fresh_world\<lparr> files := [''ck.pth'' \<mapsto> CheckpointFile toy_checkpoint] \<rparr>"
  have l: "torch_load (files ?w)
      (if ''ck.pth'' = ''latest'' then latest_path (float_str (toy_env False)) ?a else ''ck.pth'') =
      Inr toy_checkpoint"
    by (simp add: torch_load_def)
  have "\<exists>a1 w1 mx. prepare (toy_env False) ?a ?w = Inr (a1, w1, mx)"
    by (simp add: prepare_def short_args_build make_run_dirs_def resume_state_def
          resume_from_def torch_load_def Let_def)
  then obtain a1 w1 mx where p: "prepare (toy_env False) ?a ?w = Inr (a1, w1, mx)" by blast
  then have x: "\<exists>a1 w1 mx. prepare (toy_env False) ?a ?w = Inr (a1, w1, mx)" by blast
  have e: "ck_epoch toy_checkpoint = 0" by (simp add: toy_checkpoint_def)
  have u: "[1..(1::int)] = [1]" by (simp add: upto_rec1)
  show ?thesis
    using resume_runs_remaining_epochs [OF _ l p] l e u x by simp
qed

section \<open>Best accuracy\<close>

text \<open>
  C2, as amended. On the coordinating process, for every epoch, \<open>max_test_acc1\<close> becomes
  the epoch's test top-1 accuracy, and the checkpoint (carrying the new value) is
  written to \<open>checkpoint_max_test_acc1.pth\<close>, if and only if that accuracy is strictly
  greater than the previous \<open>max_test_acc1\<close>; otherwise both are left as they were. On any
  other process \<open>max_test_acc1\<close> is never updated and nothing is written.
\<close>

theorem best_accuracy_update:
  "snd (epoch_body E a epoch (w, mx)) =
     (if is_main_process E \<and> mx < epoch_test_acc1 E a epoch w
      then epoch_test_acc1 E a epoch w else mx) \<and>
   (best_path (float_str E) a \<in>
      set (map fst (saves (new_events w (fst (epoch_body E a epoch (w, mx)))))) \<longleftrightarrow>
      is_main_process E \<and> mx < epoch_test_acc1 E a epoch w) \<and>
   files (fst (epoch_body E a epoch (w, mx))) (best_path (float_str E) a) =
     (if is_main_process E \<and> mx < epoch_test_acc1 E a epoch w
      then Some (CheckpointFile (epoch_checkpoint E a epoch (w, mx)))
      else files w (best_path (float_str E) a)) \<and>
   ck_max_test_acc1 (epoch_checkpoint E a epoch (w, mx)) =
     (if mx < epoch_test_acc1 E a epoch w then epoch_test_acc1 E a epoch w else mx)"
proof -
  have n: "latest_path (float_str E) a \<noteq> best_path (float_str E) a"
    by (rule latest_not_best)
  have 1: "snd (epoch_body E a epoch (w, mx)) =
     (if is_main_process E \<and> mx < epoch_test_acc1 E a epoch w
      then epoch_test_acc1 E a epoch w else mx)"
    by (simp add: epoch_body_unfold Let_def max_def)
  have 2: "best_path (float_str E) a \<in>
      set (map fst (saves (new_events w (fst (epoch_body E a epoch (w, mx)))))) \<longleftrightarrow>
      is_main_process E \<and> mx < epoch_test_acc1 E a epoch w"
  proof -
    note s = epoch_body_new_saves [where st = "(w, mx)" and E = E and a = a and epoch = epoch,
        simplified]
    show ?thesis
      using n
      by (cases "is_main_process E"; cases "mx < epoch_test_acc1 E a epoch w")
         (simp_all add: s eq_commute [of "best_path (float_str E) a"])
  qed
  have 3: "files (fst (epoch_body E a epoch (w, mx))) (best_path (float_str E) a) =
     (if is_main_process E \<and> mx < epoch_test_acc1 E a epoch w
      then Some (CheckpointFile (epoch_checkpoint E a epoch (w, mx)))
      else files w (best_path (float_str E) a))"
    using n by (simp add: epoch_body_files)
  have 4: "ck_max_test_acc1 (epoch_checkpoint E a epoch (w, mx)) =
     (if mx < epoch_test_acc1 E a epoch w then epoch_test_acc1 E a epoch w else mx)"
    by (simp add: epoch_checkpoint_def make_checkpoint_def max_def)
  show ?thesis using 1 2 3 4 by blast
qed

text \<open>
  C2 as stated fails on a process that is not the coordinating one: the epoch's test
  accuracy 1/2 is above the previous best -1, yet \<open>max_test_acc1\<close> stays -1 and no file is
  written.
\<close>

theorem best_accuracy_counterexample:
  "- 1 < epoch_test_acc1 (toy_env False) short_args 0 fresh_world \<and>
   snd (epoch_body (toy_env False) short_args 0 (fresh_world, - 1)) = - 1 \<and>
   saves (trace (fst (epoch_body (toy_env False) short_args 0 (fresh_world, - 1)))) = [] \<and>
   files (fst (epoch_body (toy_env False) short_args 0 (fresh_world, - 1))) = Map.empty"
  by (simp add: toy_test_acc1 epoch_body_unfold epoch_body_saves epoch_body_files
        after_eval_reads fresh_world_def)

section \<open>The latest checkpoint\<close>

text \<open>
  C3. At the end of every epoch the coordinating process, and no other, writes a
  checkpoint to \<open>checkpoint_latest.pth\<close>, replacing what the path held. Its epoch field is
  the index of the epoch just completed and its state dicts are those reached after
  that epoch's training pass, scheduler step and evaluation pass. Every checkpoint
  an epoch saves names that epoch, over the loop the latest file is saved once for each
  epoch from the first to \<open>epochs - 1\<close>, and in a whole run every checkpoint is saved
  after the evaluation pass of the epoch it names has returned.
\<close>

theorem latest_checkpoint_every_epoch:
  "files (fst (epoch_body E a epoch st)) (latest_path (float_str E) a) =
     (if is_main_process E then Some (CheckpointFile (epoch_checkpoint E a epoch st))
      else files (fst st) (latest_path (float_str E) a)) \<and>
   (\<not> is_main_process E \<longrightarrow>
      files (fst (epoch_body E a epoch st)) = files (fst st) \<and>
      saves (new_events (fst st) (fst (epoch_body E a epoch st))) = []) \<and>
   ck_epoch (epoch_checkpoint E a epoch st) = epoch \<and>
   ck_model (epoch_checkpoint E a epoch st) = model_sd (tensors (after_eval E a epoch (fst st))) \<and>
   ck_optimizer (epoch_checkpoint E a epoch st) =
     optimizer_sd (tensors (after_eval E a epoch (fst st))) \<and>
   ck_lr_scheduler (epoch_checkpoint E a epoch st) =
     lr_scheduler_sd (tensors (after_eval E a epoch (fst st))) \<and>
   (\<forall>x \<in> set (saves (new_events (fst st) (fst (epoch_body E a epoch st)))).
      ck_epoch (snd x) = epoch) \<and>
   saved_epochs (latest_path (float_str E) a)
     (new_events (fst st) (fst (epoch_loop E a epoch st))) =
     (if is_main_process E then [epoch..epochs a - 1] else []) \<and>
   (checkpoints_in_order (trace w) \<longrightarrow> checkpoints_in_order (trace (snd (main E a w))))"
proof -
  have n: "latest_path (float_str E) a \<noteq> best_path (float_str E) a"
    by (rule latest_not_best)
  have 1: "files (fst (epoch_body E a epoch st)) (latest_path (float_str E) a) =
     (if is_main_process E then Some (CheckpointFile (epoch_checkpoint E a epoch st))
      else files (fst st) (latest_path (float_str E) a))"
    using n by (simp add: epoch_body_files)
  have 2: "\<not> is_main_process E \<longrightarrow>
      files (fst (epoch_body E a epoch st)) = files (fst st) \<and>
      saves (new_events (fst st) (fst (epoch_body E a epoch st))) = []"
    by (simp add: epoch_body_files epoch_body_new_saves)
  have 3: "ck_epoch (epoch_checkpoint E a epoch st) = epoch \<and>
     ck_model (epoch_checkpoint E a epoch st) = model_sd (tensors (after_eval E a epoch (fst st))) \<and>
     ck_optimizer (epoch_checkpoint E a epoch st) =
       optimizer_sd (tensors (after_eval E a epoch (fst st))) \<and>
     ck_lr_scheduler (epoch_checkpoint E a epoch st) =
       lr_scheduler_sd (tensors (after_eval E a epoch (fst st)))"
    by (simp add: epoch_checkpoint_def make_checkpoint_def)
  have 4: "\<forall>x \<in> set (saves (new_events (fst st) (fst (epoch_body E a epoch st)))).
      ck_epoch (snd x) = epoch"
    by (auto simp add: epoch_body_new_saves split: if_splits)
  have 5: "saved_epochs (latest_path (float_str E) a)
     (new_events (fst st) (fst (epoch_loop E a epoch st))) =
     (if is_main_process E then [epoch..epochs a - 1] else [])"
    by (rule new_events_saved_epochs [OF epoch_loop_extends epoch_loop_saved_epochs])
  have 6: "checkpoints_in_order (trace w) \<longrightarrow> checkpoints_in_order (trace (snd (main E a w)))"
    by (simp add: checkpoints_in_order_def main_phase)
  show ?thesis using 1 2 3 4 5 6 by blast
qed

theorem latest_checkpoint_every_epoch_witness:
  "\<not> is_main_process (toy_env False) \<and>
   files (fst (epoch_body (toy_env False) short_args 0 (fresh_world, - 1))) = Map.empty \<and>
   saves (new_events fresh_world
     (fst (epoch_body (toy_env True) short_args 0 (fresh_world, - 1)))) \<noteq> [] \<and>
   list_all (\<lambda>x. ck_epoch (snd x) = 0)
     (saves (new_events fresh_world
        (fst (epoch_body (toy_env True) short_args 0 (fresh_world, - 1))))) \<and>
   checkpoints_in_order (trace fresh_world) \<and>
   checkpoints_in_order (trace (snd (main (toy_env True) short_args fresh_world)))"
proof -
  have i: "checkpoints_in_order (trace fresh_world)"
    by (simp add: checkpoints_in_order_def phase_of_def fresh_world_def)
  have f: "files fresh_world = Map.empty" by (simp add: fresh_world_def)
  have s: "saves (new_events fresh_world
          (fst (epoch_body (toy_env True) short_args 0 (fresh_world, - 1)))) \<noteq> []"
    using epoch_body_new_saves [where st = "(fresh_world, - 1)" and E = "toy_env True"]
    by simp
  show ?thesis
    using latest_checkpoint_every_epoch [of "toy_env False" short_args 0 "(fresh_world, - 1)"
        fresh_world]
      latest_checkpoint_every_epoch [of "toy_env True" short_args 0 "(fresh_world, - 1)"
        fresh_world] i f s
    by (simp add: list_all_iff)
qed

section \<open>What a checkpoint holds and what resuming restores\<close>

lemma new_events_trans:
  "trace w1 = trace w0 @ xs \<Longrightarrow> trace w2 = trace w1 @ ys \<Longrightarrow>
   new_events w0 w2 = new_events w0 w1 @ new_events w1 w2"
  by (simp add: new_events_def)

lemma epoch_checkpoint_literal:
  "epoch_checkpoint E a epoch st =
     \<lparr> ck_model = model_sd (tensors (after_eval E a epoch (fst st))),
       ck_optimizer = optimizer_sd (tensors (after_eval E a epoch (fst st))),
       ck_lr_scheduler = lr_scheduler_sd (tensors (after_eval E a epoch (fst st))),
       ck_epoch = epoch,
       ck_args = a,
       ck_max_test_acc1 = max (snd st) (epoch_test_acc1 E a epoch (fst st)),
       ck_scaler = (if amp a then Some (scaler_sd (tensors (after_eval E a epoch (fst st))))
                    else None) \<rparr>"
  by (simp add: epoch_checkpoint_def make_checkpoint_def)

lemma epoch_checkpoint_keys:
  "set (ckpt_keys (epoch_checkpoint E a epoch st)) = expected_keys a"
  "ck_scaler (epoch_checkpoint E a epoch st) = None \<longleftrightarrow> \<not> amp a"
  by (simp_all add: ckpt_keys_def epoch_checkpoint_def make_checkpoint_def expected_keys_def)

lemma epoch_body_saved:
  "x \<in> set (saves (new_events (fst st) (fst (epoch_body E a epoch st)))) \<Longrightarrow>
   snd x = epoch_checkpoint E a epoch st"
  by (auto simp add: epoch_body_new_saves split: if_splits)

lemma epoch_loop_saved_keys:
  "x \<in> set (saves (new_events (fst st) (fst (epoch_loop E a epoch st)))) \<Longrightarrow>
   set (ckpt_keys (snd x)) = expected_keys a \<and> (ck_scaler (snd x) = None \<longleftrightarrow> \<not> amp a)"
proof (induction E a epoch st rule: epoch_loop.induct)
  case (1 E a epoch st)
  show ?case
  proof (cases "epoch < epochs a")
    case True
    let ?b = "epoch_body E a epoch st"
    obtain xs where xs: "trace (fst ?b) = trace (fst st) @ xs"
      using epoch_body_extends by blast
    obtain ys where ys: "trace (fst (epoch_loop E a (epoch + 1) ?b)) = trace (fst ?b) @ ys"
      using epoch_loop_extends by blast
    have "new_events (fst st) (fst (epoch_loop E a epoch st)) =
        new_events (fst st) (fst ?b) @ new_events (fst ?b) (fst (epoch_loop E a (epoch + 1) ?b))"
      using True new_events_trans [OF xs ys] by (simp add: epoch_loop.simps [of E a epoch])
    then have "x \<in> set (saves (new_events (fst st) (fst ?b))) \<or>
        x \<in> set (saves (new_events (fst ?b) (fst (epoch_loop E a (epoch + 1) ?b))))"
      using "1.prems" by simp
    then show ?thesis
    proof
      assume "x \<in> set (saves (new_events (fst st) (fst ?b)))"
      then have "snd x = epoch_checkpoint E a epoch st" by (rule epoch_body_saved)
      then show ?thesis by (simp add: epoch_checkpoint_keys)
    next
      assume "x \<in> set (saves (new_events (fst ?b) (fst (epoch_loop E a (epoch + 1) ?b))))"
      then show ?thesis by (rule "1.IH" [OF True])
    qed
  next
    case False
    then have "new_events (fst st) (fst (epoch_loop E a epoch st)) = []"
      by (simp add: epoch_loop.simps [of E a epoch] new_events_def)
    then show ?thesis using "1.prems" by simp
  qed
qed

lemma prepare_amp: "prepare E a w = Inr (a1, w1, mx) \<Longrightarrow> amp a1 = amp a"
  by (auto simp add: prepare_def resume_state_def split: sum.splits option.splits
        dest!: resume_from_Inr)

lemma main_saved_keys:
  assumes "x \<in> set (saves (new_events w (snd (main E a w))))"
  shows "set (ckpt_keys (snd x)) = expected_keys a \<and> (ck_scaler (snd x) = None \<longleftrightarrow> \<not> amp a)"
proof (cases "prepare E a w")
  case (Inl ew)
  obtain e w1 where "ew = (e, w1)" by (cases ew) auto
  then have "trace (snd (main E a w)) = trace w"
    using Inl prepare_Inl [of E a w e w1] by (simp add: main_def)
  then have "new_events w (snd (main E a w)) = []" by (simp add: new_events_def)
  then show ?thesis using assms by simp
next
  case (Inr y)
  obtain a1 w1 mx where y: "y = (a1, w1, mx)" by (cases y) auto
  have t: "trace w1 = trace w" using prepare_Inr [of E a w a1 w1 mx] Inr y by simp
  have m: "amp a1 = amp a" using prepare_amp [of E a w a1 w1 mx] Inr y by simp
  have "new_events w (snd (main E a w)) =
      new_events (fst (w1, mx)) (fst (epoch_loop E a1 (start_epoch a1) (w1, mx)))"
    using Inr y t by (simp add: main_def new_events_def)
  then have "x \<in> set (saves (new_events (fst (w1, mx))
      (fst (epoch_loop E a1 (start_epoch a1) (w1, mx)))))"
    using assms by simp
  then have "set (ckpt_keys (snd x)) = expected_keys a1 \<and> (ck_scaler (snd x) = None \<longleftrightarrow> \<not> amp a1)"
    by (rule epoch_loop_saved_keys)
  then show ?thesis using m by (simp add: expected_keys_def)
qed

lemma main_saved_epochs:
  assumes "prepare E a w = Inr (a1, w1, mx)"
    and "latest_path (float_str E) a1 = latest_path (float_str E) a"
  shows "saved_epochs (latest_path (float_str E) a) (new_events w (snd (main E a w))) =
         (if is_main_process E then [start_epoch a1..epochs a - 1] else [])"
proof -
  have t: "trace w1 = trace w" "epochs a1 = epochs a"
    using prepare_Inr [OF assms(1)] by simp_all
  have "new_events w (snd (main E a w)) =
      new_events (fst (w1, mx)) (fst (epoch_loop E a1 (start_epoch a1) (w1, mx)))"
    using assms(1) t by (simp add: main_def new_events_def)
  moreover have "saved_epochs (latest_path (float_str E) a1)
      (new_events (fst (w1, mx)) (fst (epoch_loop E a1 (start_epoch a1) (w1, mx)))) =
      (if is_main_process E then [start_epoch a1..epochs a1 - 1] else [])"
    by (rule new_events_saved_epochs [OF epoch_loop_extends epoch_loop_saved_epochs])
  ultimately show ?thesis using assms(2) t by simp
qed

text \<open>
  C4, as amended. Every checkpoint an epoch saves, to the latest file and to the best
  file, is the dict of the model parameters, the optimizer state, the scheduler state,
  the epoch index, the best test accuracy so far and the run's arguments, each as it
  stands after the epoch's evaluation pass, with the scaler state exactly when mixed
  precision is on (\<open>args.amp\<close>); on the coordinating process every epoch saves one,
  and the latest file holds it. Every checkpoint a whole run saves has these six keys,
  and the key \<open>scaler\<close> exactly when mixed precision is on. On resume the model,
  optimizer and scheduler state are restored from the loaded checkpoint and
  \<open>start_epoch\<close> is set from its epoch on every process; the scaler state is restored
  when mixed precision is on, and a checkpoint without one then raises \<open>KeyError\<close>; the
  best test accuracy is restored on the coordinating process only.
\<close>

theorem checkpoint_contents_and_restore:
  "(\<forall>x \<in> set (saves (new_events (fst st) (fst (epoch_body E a epoch st)))).
      snd x =
        \<lparr> ck_model = model_sd (tensors (after_eval E a epoch (fst st))),
          ck_optimizer = optimizer_sd (tensors (after_eval E a epoch (fst st))),
          ck_lr_scheduler = lr_scheduler_sd (tensors (after_eval E a epoch (fst st))),
          ck_epoch = epoch,
          ck_args = a,
          ck_max_test_acc1 = max (snd st) (epoch_test_acc1 E a epoch (fst st)),
          ck_scaler = (if amp a then Some (scaler_sd (tensors (after_eval E a epoch (fst st))))
                       else None) \<rparr> \<and>
      set (ckpt_keys (snd x)) =
        {''model'', ''optimizer'', ''lr_scheduler'', ''epoch'', ''args'', ''max_test_acc1''} \<union>
        (if amp a then {''scaler''} else {})) \<and>
   (is_main_process E \<longrightarrow>
      (\<exists>ck. (latest_path (float_str E) a, ck) \<in>
               set (saves (new_events (fst st) (fst (epoch_body E a epoch st)))) \<and>
            files (fst (epoch_body E a epoch st)) (latest_path (float_str E) a) =
              Some (CheckpointFile ck))) \<and>
   (\<forall>x \<in> set (saves (new_events w (snd (main E a w)))).
      set (ckpt_keys (snd x)) =
        {''model'', ''optimizer'', ''lr_scheduler'', ''epoch'', ''args'', ''max_test_acc1''} \<union>
        (if amp a then {''scaler''} else {}) \<and>
      (ck_scaler (snd x) = None \<longleftrightarrow> \<not> amp a)) \<and>
   (torch_load (files w) (if r = ''latest'' then latest_path (float_str E) a else r) = Inr ck \<longrightarrow>
      (if amp a \<and> ck_scaler ck = None
       then resume_from E a r w =
              Inl (KeyError ''scaler'',
                   w\<lparr> tensors := (tensors w)\<lparr> model_sd := ck_model ck,
                          optimizer_sd := ck_optimizer ck,
                          lr_scheduler_sd := ck_lr_scheduler ck \<rparr> \<rparr>)
       else resume_from E a r w =
              Inr (a\<lparr> start_epoch := ck_epoch ck + 1 \<rparr>,
                   w\<lparr> tensors := \<lparr> model_sd = ck_model ck,
                          optimizer_sd = ck_optimizer ck,
                          lr_scheduler_sd = ck_lr_scheduler ck,
                          scaler_sd = (if amp a then the (ck_scaler ck)
                                       else scaler_sd (tensors w)) \<rparr> \<rparr>,
                   if is_main_process E then ck_max_test_acc1 ck else - 1)))"
proof -
  have 1: "\<forall>x \<in> set (saves (new_events (fst st) (fst (epoch_body E a epoch st)))).
      snd x =
        \<lparr> ck_model = model_sd (tensors (after_eval E a epoch (fst st))),
          ck_optimizer = optimizer_sd (tensors (after_eval E a epoch (fst st))),
          ck_lr_scheduler = lr_scheduler_sd (tensors (after_eval E a epoch (fst st))),
          ck_epoch = epoch,
          ck_args = a,
          ck_max_test_acc1 = max (snd st) (epoch_test_acc1 E a epoch (fst st)),
          ck_scaler = (if amp a then Some (scaler_sd (tensors (after_eval E a epoch (fst st))))
                       else None) \<rparr> \<and>
      set (ckpt_keys (snd x)) =
        {''model'', ''optimizer'', ''lr_scheduler'', ''epoch'', ''args'', ''max_test_acc1''} \<union>
        (if amp a then {''scaler''} else {})"
  proof
    fix x
    assume "x \<in> set (saves (new_events (fst st) (fst (epoch_body E a epoch st))))"
    then have "snd x = epoch_checkpoint E a epoch st" by (rule epoch_body_saved)
    then show "snd x =
        \<lparr> ck_model = model_sd (tensors (after_eval E a epoch (fst st))),
          ck_optimizer = optimizer_sd (tensors (after_eval E a epoch (fst st))),
          ck_lr_scheduler = lr_scheduler_sd (tensors (after_eval E a epoch (fst st))),
          ck_epoch = epoch,
          ck_args = a,
          ck_max_test_acc1 = max (snd st) (epoch_test_acc1 E a epoch (fst st)),
          ck_scaler = (if amp a then Some (scaler_sd (tensors (after_eval E a epoch (fst st))))
                       else None) \<rparr> \<and>
      set (ckpt_keys (snd x)) =
        {''model'', ''optimizer'', ''lr_scheduler'', ''epoch'', ''args'', ''max_test_acc1''} \<union>
        (if amp a then {''scaler''} else {})"
      using epoch_checkpoint_literal [of E a epoch st] epoch_checkpoint_keys(1) [of E a epoch st]
      by (simp add: expected_keys_def)
  qed
  have n: "latest_path (float_str E) a \<noteq> best_path (float_str E) a"
    by (rule latest_not_best)
  have 2: "is_main_process E \<longrightarrow>
      (\<exists>ck. (latest_path (float_str E) a, ck) \<in>
               set (saves (new_events (fst st) (fst (epoch_body E a epoch st)))) \<and>
            files (fst (epoch_body E a epoch st)) (latest_path (float_str E) a) =
              Some (CheckpointFile ck))"
    using n by (auto simp add: epoch_body_new_saves epoch_body_files)
  have 3: "\<forall>x \<in> set (saves (new_events w (snd (main E a w)))).
      set (ckpt_keys (snd x)) =
        {''model'', ''optimizer'', ''lr_scheduler'', ''epoch'', ''args'', ''max_test_acc1''} \<union>
        (if amp a then {''scaler''} else {}) \<and>
      (ck_scaler (snd x) = None \<longleftrightarrow> \<not> amp a)"
    using main_saved_keys [of _ w E a] by (simp add: expected_keys_def)
  have 4: "torch_load (files w) (if r = ''latest'' then latest_path (float_str E) a else r) = Inr ck \<longrightarrow>
      (if amp a \<and> ck_scaler ck = None
       then resume_from E a r w =
              Inl (KeyError ''scaler'',
                   w\<lparr> tensors := (tensors w)\<lparr> model_sd := ck_model ck,
                          optimizer_sd := ck_optimizer ck,
                          lr_scheduler_sd := ck_lr_scheduler ck \<rparr> \<rparr>)
       else resume_from E a r w =
              Inr (a\<lparr> start_epoch := ck_epoch ck + 1 \<rparr>,
                   w\<lparr> tensors := \<lparr> model_sd = ck_model ck,
                          optimizer_sd = ck_optimizer ck,
                          lr_scheduler_sd = ck_lr_scheduler ck,
                          scaler_sd = (if amp a then the (ck_scaler ck)
                                       else scaler_sd (tensors w)) \<rparr> \<rparr>,
                   if is_main_process E then ck_max_test_acc1 ck else - 1))"
    by (cases "tensors w") (auto simp add: resume_from_def Let_def split: option.splits)
  show ?thesis using 1 2 3 4 by blast
qed

lemma toy_prepare:
  "\<exists>w1. prepare (toy_env True) short_args fresh_world = Inr (short_args, w1, - 1)"
proof -
  have "build short_args fresh_world =
      Inr (fresh_world\<lparr> dirs := insert ''./logs'' (dirs fresh_world) \<rparr>)"
    by (simp add: build_def makedirs_def load_model_def set_optimizer_def torch_SGD_def
          set_lr_scheduler_def main_lr_scheduler_def fresh_world_def)
  moreover have "resume short_args = None"
    by (simp add: short_args_def default_args_def)
  moreover have "tb_dir (\<lambda>x. ''0.1'') short_args =
        ''./logs/mixer_b32_e2_sgd_lr0.1_wd0.1_seed42/tb''"
    by (simp add: tb_dir_def path_join_def join2_def get_logdir_name_def
          short_args_def default_args_def str_int_def str_nat.simps digit_char_def)
  moreover have "pt_dir (\<lambda>x. ''0.1'') short_args =
        ''./logs/mixer_b32_e2_sgd_lr0.1_wd0.1_seed42/pt''"
    by (simp add: pt_dir_def path_join_def join2_def get_logdir_name_def
          short_args_def default_args_def str_int_def str_nat.simps digit_char_def)
  ultimately show ?thesis
    by (simp add: prepare_def make_run_dirs_def makedirs_def resume_state_def fresh_world_def)
qed

theorem checkpoint_contents_and_restore_witness:
  "is_main_process (toy_env True) \<and>
   saves (new_events fresh_world
     (fst (epoch_body (toy_env True) short_args 0 (fresh_world, - 1)))) \<noteq> [] \<and>
   list_all (\<lambda>x. set (ckpt_keys (snd x)) =
        {''model'', ''optimizer'', ''lr_scheduler'', ''epoch'', ''args'', ''max_test_acc1''})
     (saves (new_events fresh_world
        (fst (epoch_body (toy_env True) short_args 0 (fresh_world, - 1))))) \<and>
   saved_epochs (latest_path (float_str (toy_env True)) short_args)
     (new_events fresh_world (snd (main (toy_env True) short_args fresh_world))) = [0, 1] \<and>
   list_all (\<lambda>x. set (ckpt_keys (snd x)) =
        {''model'', ''optimizer'', ''lr_scheduler'', ''epoch'', ''args'', ''max_test_acc1''})
     (saves (new_events fresh_world (snd (main (toy_env True) short_args fresh_world)))) \<and>
   torch_load (files (fresh_world\<lparr> files := [''ck.pth'' \<mapsto> CheckpointFile toy_checkpoint] \<rparr>))
     ''ck.pth'' = Inr toy_checkpoint \<and>
   resume_from (toy_env False) short_args ''ck.pth''
     (fresh_world\<lparr> files := [''ck.pth'' \<mapsto> CheckpointFile toy_checkpoint] \<rparr>) =
     Inr (short_args\<lparr> start_epoch := 1 \<rparr>,
          fresh_world\<lparr> files := [''ck.pth'' \<mapsto> CheckpointFile toy_checkpoint],
            tensors := \<lparr> model_sd = 2, optimizer_sd = 2, lr_scheduler_sd = 1, scaler_sd = 0 \<rparr> \<rparr>,
          - 1) \<and>
   (\<exists>w1. resume_from (toy_env False) (short_args\<lparr> amp := True \<rparr>) ''ck.pth''
     (fresh_world\<lparr> files := [''ck.pth'' \<mapsto> CheckpointFile toy_checkpoint] \<rparr>) =
     Inl (KeyError ''scaler'', w1))"
proof -
  let ?w = "fresh_world\<lparr> files := [''ck.pth'' \<mapsto> CheckpointFile toy_checkpoint] \<rparr>"
  let ?six = "{''model'', ''optimizer'', ''lr_scheduler'', ''epoch'', ''args'', ''max_test_acc1''}"
  have m: "is_main_process (toy_env True)" "\<not> is_main_process (toy_env False)"
    "\<not> amp short_args" "amp (short_args\<lparr> amp := True \<rparr>)"
    by (simp_all add: toy_env_def short_args_def default_args_def)
  have l: "torch_load (files ?w) ''ck.pth'' = Inr toy_checkpoint"
    by (simp add: torch_load_def)
  have c: "ck_scaler toy_checkpoint = None" "ck_model toy_checkpoint = 2"
    "ck_optimizer toy_checkpoint = 2" "ck_lr_scheduler toy_checkpoint = 1"
    "ck_epoch toy_checkpoint = 0"
    by (simp_all add: toy_checkpoint_def)
  have t: "scaler_sd (tensors ?w) = 0" by (simp add: fresh_world_def)
  have s: "saves (new_events fresh_world
          (fst (epoch_body (toy_env True) short_args 0 (fresh_world, - 1)))) \<noteq> []"
    using epoch_body_new_saves [where st = "(fresh_world, - 1)" and E = "toy_env True"] m
    by simp
  obtain w1 where p: "prepare (toy_env True) short_args fresh_world = Inr (short_args, w1, - 1)"
    using toy_prepare by blast
  have u: "[0..(1::int)] = [0, 1]" by (simp add: upto_rec1)
  have e: "saved_epochs (latest_path (float_str (toy_env True)) short_args)
     (new_events fresh_world (snd (main (toy_env True) short_args fresh_world))) = [0, 1]"
    using main_saved_epochs [OF p] u m by (simp add: short_args_def default_args_def)
  note A = checkpoint_contents_and_restore
        [of "(fresh_world, - 1)" "toy_env True" short_args 0 fresh_world "''ck.pth''"
          toy_checkpoint]
  note B = checkpoint_contents_and_restore
        [of "(fresh_world, - 1)" "toy_env False" short_args 0 ?w "''ck.pth''" toy_checkpoint]
  note C = checkpoint_contents_and_restore
        [of "(fresh_world, - 1)" "toy_env False" "short_args\<lparr> amp := True \<rparr>" 0 ?w "''ck.pth''"
          toy_checkpoint]
  have k1: "list_all (\<lambda>x. set (ckpt_keys (snd x)) = ?six)
     (saves (new_events fresh_world
        (fst (epoch_body (toy_env True) short_args 0 (fresh_world, - 1)))))"
    unfolding list_all_iff
  proof
    fix x
    assume x: "x \<in> set (saves (new_events fresh_world
        (fst (epoch_body (toy_env True) short_args 0 (fresh_world, - 1)))))"
    show "set (ckpt_keys (snd x)) = ?six"
      using A [THEN conjunct1, THEN bspec, of x, THEN conjunct2] x m(3) by simp
  qed
  have k2: "list_all (\<lambda>x. set (ckpt_keys (snd x)) = ?six)
     (saves (new_events fresh_world (snd (main (toy_env True) short_args fresh_world))))"
    unfolding list_all_iff
  proof
    fix x
    assume x: "x \<in> set (saves (new_events fresh_world
        (snd (main (toy_env True) short_args fresh_world))))"
    show "set (ckpt_keys (snd x)) = ?six"
      using A [THEN conjunct2, THEN conjunct2, THEN conjunct1, THEN bspec, of x, THEN conjunct1]
        x m(3) by simp
  qed
  have r1: "resume_from (toy_env False) short_args ''ck.pth'' ?w =
     Inr (short_args\<lparr> start_epoch := 1 \<rparr>,
          fresh_world\<lparr> files := [''ck.pth'' \<mapsto> CheckpointFile toy_checkpoint],
            tensors := \<lparr> model_sd = 2, optimizer_sd = 2, lr_scheduler_sd = 1, scaler_sd = 0 \<rparr> \<rparr>,
          - 1)"
    using B [THEN conjunct2, THEN conjunct2, THEN conjunct2] l c t m by simp
  have r2: "\<exists>w1. resume_from (toy_env False) (short_args\<lparr> amp := True \<rparr>) ''ck.pth'' ?w =
     Inl (KeyError ''scaler'', w1)"
    using C [THEN conjunct2, THEN conjunct2, THEN conjunct2] l c m by simp
  show ?thesis using m(1) s k1 e k2 l r1 r2 by blast
qed

text \<open>
  C4 as stated fails when mixed precision is off: the checkpoint the coordinating
  process writes at the end of epoch 0 has no scaler entry.
\<close>

theorem checkpoint_without_scaler_counterexample:
  "\<exists>ck. files (fst (epoch_body (toy_env True) short_args 0 (fresh_world, - 1)))
          (latest_path (float_str (toy_env True)) short_args) = Some (CheckpointFile ck) \<and>
        ''scaler'' \<notin> set (ckpt_keys ck) \<and> ck_scaler ck = None"
proof -
  have n: "latest_path (float_str (toy_env True)) short_args \<noteq>
      best_path (float_str (toy_env True)) short_args"
    by (rule latest_not_best)
  have f: "files (fst (epoch_body (toy_env True) short_args 0 (fresh_world, - 1)))
          (latest_path (float_str (toy_env True)) short_args) =
        Some (CheckpointFile (epoch_checkpoint (toy_env True) short_args 0 (fresh_world, - 1)))"
    using n by (simp add: epoch_body_files)
  have k: "''scaler'' \<notin> set (ckpt_keys (epoch_checkpoint (toy_env True) short_args 0 (fresh_world, - 1)))"
    "ck_scaler (epoch_checkpoint (toy_env True) short_args 0 (fresh_world, - 1)) = None"
    by (simp_all add: ckpt_keys_def epoch_checkpoint_def make_checkpoint_def)
  show ?thesis using f k by blast
qed

section \<open>Unsupported names and refused values\<close>

lemma ci_names_apart: "\<not> (ci_match s ''sgd'' \<and> ci_match s ''adamw'')"
  by (auto simp add: ci_match_def dest!: list_all2_lengthD)

lemma set_optimizer_cases:
  "set_optimizer a =
     (if ci_match (opt a) ''sgd'' then torch_SGD (lr a) (momentum a) (weight_decay a)
      else if ci_match (opt a) ''adamw'' then torch_AdamW (lr a) (weight_decay a)
      else Inl (NotImplementedError (''Not supported optimizer '' @ opt a)))"
  by (simp add: set_optimizer_def Let_def lower_names)

lemma main_lr_scheduler_cases:
  "main_lr_scheduler a =
     (if ci_match (lr_scheduler a) ''step'' then Inr (StepLR (lr_step_size a) (lr_gamma a))
      else if ci_match (lr_scheduler a) ''cosa''
        then Inr (CosineAnnealingLR (epochs a - lr_warmup_epochs a))
      else if ci_match (lr_scheduler a) ''exp'' then Inr (ExponentialLR (lr_gamma a))
      else Inl (NotImplementedError (''Not supported lr_scheduler '' @ lr_scheduler a)))"
  by (simp add: main_lr_scheduler_def Let_def lower_names)

lemma build_error:
  assumes "build a w = Inl (e, w1)" and "model a = ''mixer''"
  shows "set_optimizer a = Inl e \<or> ((\<exists>x. set_optimizer a = Inr x) \<and> set_lr_scheduler a = Inl e)"
  using assms
  by (auto simp add: build_def makedirs_def load_model_def split: if_splits sum.splits)

text \<open>
  C6, as amended. \<open>set_optimizer\<close> raises \<open>NotImplementedError\<close> exactly for the names
  other than \<open>sgd\<close> and \<open>adamw\<close>, in any mix of upper and lower case; \<open>set_lr_scheduler\<close>
  raises it exactly when the scheduler name is not \<open>step\<close>, \<open>cosa\<close> or \<open>exp\<close>, in any mix of
  case, or \<open>lr_warmup_epochs > 0\<close> and the warmup method is not \<open>linear\<close> or \<open>constant\<close>. For
  the supported names set-up succeeds exactly when torch accepts the values: no
  negative learning rate, momentum (for \<open>sgd\<close>) or weight decay, and with warmup epochs
  a warmup decay in \<open>(0, 1]\<close> for \<open>linear\<close> and in \<open>[0, 1]\<close> for \<open>constant\<close>; otherwise it
  raises \<open>ValueError\<close>. Whichever of the two raises first, the run ends before any event
  of training, its trace and files as they were, and with that exception once the
  model has been built (\<open>--model mixer\<close>).
\<close>

theorem unsupported_names_fail_at_setup:
  "((\<exists>msg. set_optimizer a = Inl (NotImplementedError msg)) \<longleftrightarrow>
      \<not> (ci_match (opt a) ''sgd'' \<or> ci_match (opt a) ''adamw'')) \<and>
   ((\<exists>x. set_optimizer a = Inr x) \<longleftrightarrow>
      (ci_match (opt a) ''sgd'' \<and> 0 \<le> lr a \<and> 0 \<le> momentum a \<and> 0 \<le> weight_decay a) \<or>
      (ci_match (opt a) ''adamw'' \<and> 0 \<le> lr a \<and> 0 \<le> weight_decay a)) \<and>
   ((\<exists>msg. set_optimizer a = Inl (ValueError msg)) \<longleftrightarrow>
      (ci_match (opt a) ''sgd'' \<and> (lr a < 0 \<or> momentum a < 0 \<or> weight_decay a < 0)) \<or>
      (ci_match (opt a) ''adamw'' \<and> (lr a < 0 \<or> weight_decay a < 0))) \<and>
   ((\<exists>msg. set_lr_scheduler a = Inl (NotImplementedError msg)) \<longleftrightarrow>
      \<not> ((ci_match (lr_scheduler a) ''step'' \<or> ci_match (lr_scheduler a) ''cosa'' \<or>
          ci_match (lr_scheduler a) ''exp'') \<and>
         (lr_warmup_epochs a > 0 \<longrightarrow>
            lr_warmup_method a = ''linear'' \<or> lr_warmup_method a = ''constant''))) \<and>
   ((\<exists>s. set_lr_scheduler a = Inr s) \<longleftrightarrow>
      (ci_match (lr_scheduler a) ''step'' \<or> ci_match (lr_scheduler a) ''cosa'' \<or>
       ci_match (lr_scheduler a) ''exp'') \<and>
      (lr_warmup_epochs a > 0 \<longrightarrow>
         (lr_warmup_method a = ''linear'' \<and> 0 < lr_warmup_decay a \<and> lr_warmup_decay a \<le> 1) \<or>
         (lr_warmup_method a = ''constant'' \<and> 0 \<le> lr_warmup_decay a \<and>
          lr_warmup_decay a \<le> 1))) \<and>
   (\<forall>e. set_optimizer a = Inl e \<or>
         ((\<exists>x. set_optimizer a = Inr x) \<and> set_lr_scheduler a = Inl e) \<longrightarrow>
      fst (main E a w) \<noteq> None \<and>
      trace (snd (main E a w)) = trace w \<and> files (snd (main E a w)) = files w \<and>
      (model a = ''mixer'' \<longrightarrow> fst (main E a w) = Some e))"
proof -
  note o = set_optimizer_cases [of a]
  note m = main_lr_scheduler_cases [of a]
  note n = ci_names_apart [of "opt a"]
  have 1: "(\<exists>msg. set_optimizer a = Inl (NotImplementedError msg)) \<longleftrightarrow>
      \<not> (ci_match (opt a) ''sgd'' \<or> ci_match (opt a) ''adamw'')"
    by (auto simp add: o torch_SGD_def torch_AdamW_def split: if_splits)
  have 2: "(\<exists>x. set_optimizer a = Inr x) \<longleftrightarrow>
      (ci_match (opt a) ''sgd'' \<and> 0 \<le> lr a \<and> 0 \<le> momentum a \<and> 0 \<le> weight_decay a) \<or>
      (ci_match (opt a) ''adamw'' \<and> 0 \<le> lr a \<and> 0 \<le> weight_decay a)"
    using n by (auto simp add: o torch_SGD_def torch_AdamW_def split: if_splits)
  have 3: "(\<exists>msg. set_optimizer a = Inl (ValueError msg)) \<longleftrightarrow>
      (ci_match (opt a) ''sgd'' \<and> (lr a < 0 \<or> momentum a < 0 \<or> weight_decay a < 0)) \<or>
      (ci_match (opt a) ''adamw'' \<and> (lr a < 0 \<or> weight_decay a < 0))"
    using n by (auto simp add: o torch_SGD_def torch_AdamW_def split: if_splits)
  have 4: "(\<exists>msg. set_lr_scheduler a = Inl (NotImplementedError msg)) \<longleftrightarrow>
      \<not> ((ci_match (lr_scheduler a) ''step'' \<or> ci_match (lr_scheduler a) ''cosa'' \<or>
          ci_match (lr_scheduler a) ''exp'') \<and>
         (lr_warmup_epochs a > 0 \<longrightarrow>
            lr_warmup_method a = ''linear'' \<or> lr_warmup_method a = ''constant''))"
    by (auto simp add: set_lr_scheduler_def m torch_LinearLR_def torch_ConstantLR_def
          split: if_splits)
  have 5: "(\<exists>s. set_lr_scheduler a = Inr s) \<longleftrightarrow>
      (ci_match (lr_scheduler a) ''step'' \<or> ci_match (lr_scheduler a) ''cosa'' \<or>
       ci_match (lr_scheduler a) ''exp'') \<and>
      (lr_warmup_epochs a > 0 \<longrightarrow>
         (lr_warmup_method a = ''linear'' \<and> 0 < lr_warmup_decay a \<and> lr_warmup_decay a \<le> 1) \<or>
         (lr_warmup_method a = ''constant'' \<and> 0 \<le> lr_warmup_decay a \<and>
          lr_warmup_decay a \<le> 1))"
    by (auto simp add: set_lr_scheduler_def m torch_LinearLR_def torch_ConstantLR_def
          split: if_splits)
  have 6: "\<forall>e. set_optimizer a = Inl e \<or>
         ((\<exists>x. set_optimizer a = Inr x) \<and> set_lr_scheduler a = Inl e) \<longrightarrow>
      fst (main E a w) \<noteq> None \<and>
      trace (snd (main E a w)) = trace w \<and> files (snd (main E a w)) = files w \<and>
      (model a = ''mixer'' \<longrightarrow> fst (main E a w) = Some e)"
  proof (intro allI impI)
    fix e
    assume bad: "set_optimizer a = Inl e \<or>
         ((\<exists>x. set_optimizer a = Inr x) \<and> set_lr_scheduler a = Inl e)"
    have "\<exists>e' w1. build a w = Inl (e', w1)"
    proof (cases "build a w")
      case (Inl ew)
      then show ?thesis by (cases ew) auto
    next
      case (Inr w1)
      then show ?thesis using build_Inr [OF Inr] bad by auto
    qed
    then obtain e' w1 where b: "build a w = Inl (e', w1)" by blast
    have r: "main E a w = (Some e', w1)" using b by (simp add: main_def prepare_def)
    have k: "model a = ''mixer'' \<longrightarrow> e' = e"
      using build_error [OF b] bad by auto
    show "fst (main E a w) \<noteq> None \<and>
      trace (snd (main E a w)) = trace w \<and> files (snd (main E a w)) = files w \<and>
      (model a = ''mixer'' \<longrightarrow> fst (main E a w) = Some e)"
      using r build_Inl [OF b] k by simp
  qed
  show ?thesis using 1 2 3 4 5 6 by blast
qed

lemma toy_ci [simp]:
  "ci_match ''SGD'' ''sgd''" "ci_match ''sgd'' ''sgd''" "\<not> ci_match ''adam'' ''sgd''"
  "\<not> ci_match ''adam'' ''adamw''" "\<not> ci_match ''cosa'' ''step''" "ci_match ''cosa'' ''cosa''"
  "\<not> ci_match ''foo'' ''step''" "\<not> ci_match ''foo'' ''cosa''" "\<not> ci_match ''foo'' ''exp''"
  by (simp_all add: ci_match_def upper_char_def upper_letters_def lower_letters_def)

theorem unsupported_names_fail_at_setup_witness:
  "(\<exists>x. set_optimizer (short_args\<lparr> opt := ''SGD'' \<rparr>) = Inr x) \<and>
   (\<exists>msg. set_optimizer (short_args\<lparr> opt := ''adam'' \<rparr>) = Inl (NotImplementedError msg)) \<and>
   (\<exists>s. set_lr_scheduler (short_args\<lparr> lr_warmup_epochs := 1 \<rparr>) = Inr s) \<and>
   (\<exists>msg. set_lr_scheduler (short_args\<lparr> lr_warmup_epochs := 1, lr_warmup_method := ''Linear'' \<rparr>) =
       Inl (NotImplementedError msg)) \<and>
   set_optimizer (short_args\<lparr> opt := ''adam'' \<rparr>) =
     Inl (NotImplementedError ''Not supported optimizer adam'') \<and>
   model (short_args\<lparr> opt := ''adam'' \<rparr>) = ''mixer'' \<and>
   fst (main (toy_env True) (short_args\<lparr> opt := ''adam'' \<rparr>) fresh_world) =
     Some (NotImplementedError ''Not supported optimizer adam'') \<and>
   trace (snd (main (toy_env True) (short_args\<lparr> opt := ''adam'' \<rparr>) fresh_world)) = []"
proof -
  have f: "trace fresh_world = []" by (simp add: fresh_world_def)
  have x: "set_optimizer (short_args\<lparr> opt := ''adam'' \<rparr>) =
     Inl (NotImplementedError ''Not supported optimizer adam'')"
    by (simp add: set_optimizer_cases)
  show ?thesis
    using unsupported_names_fail_at_setup [of "short_args\<lparr> opt := ''SGD'' \<rparr>" "toy_env True" fresh_world]
      unsupported_names_fail_at_setup [of "short_args\<lparr> opt := ''adam'' \<rparr>" "toy_env True" fresh_world]
      unsupported_names_fail_at_setup [of "short_args\<lparr> lr_warmup_epochs := 1 \<rparr>" "toy_env True" fresh_world]
      unsupported_names_fail_at_setup
        [of "short_args\<lparr> lr_warmup_epochs := 1, lr_warmup_method := ''Linear'' \<rparr>" "toy_env True"
          fresh_world]
      f x
    by simp
qed

text \<open>
  C6 as stated fails for supported names with values torch refuses: with the optimizer
  \<open>sgd\<close> and \<open>--lr -0.1\<close> set-up raises \<open>ValueError\<close>, with the supported scheduler and
  warmup method and \<open>--lr-warmup-decay 0\<close> as well, and with \<open>--lr -0.1\<close> and an unknown
  scheduler name the run ends with that \<open>ValueError\<close>, not with \<open>NotImplementedError\<close>.
\<close>

theorem supported_names_refused_counterexample:
  "ci_match (opt (default_args\<lparr> lr := - 1 / 10 \<rparr>)) ''sgd'' \<and>
   set_optimizer (default_args\<lparr> lr := - 1 / 10 \<rparr>) = Inl (ValueError ''Invalid learning rate'') \<and>
   ci_match (lr_scheduler (default_args\<lparr> lr_warmup_decay := 0 \<rparr>)) ''cosa'' \<and>
   lr_warmup_method (default_args\<lparr> lr_warmup_decay := 0 \<rparr>) = ''linear'' \<and>
   (\<exists>msg. set_lr_scheduler (default_args\<lparr> lr_warmup_decay := 0 \<rparr>) = Inl (ValueError msg)) \<and>
   fst (main (toy_env True) (default_args\<lparr> lr := - 1 / 10, lr_scheduler := ''foo'' \<rparr>) fresh_world) =
     Some (ValueError ''Invalid learning rate'')"
proof -
  have 1: "set_optimizer (default_args\<lparr> lr := - 1 / 10 \<rparr>) = Inl (ValueError ''Invalid learning rate'')"
    by (simp add: set_optimizer_cases torch_SGD_def default_args_def)
  have 2: "\<exists>msg. set_lr_scheduler (default_args\<lparr> lr_warmup_decay := 0 \<rparr>) = Inl (ValueError msg)"
    by (simp add: set_lr_scheduler_def main_lr_scheduler_cases torch_LinearLR_def
          default_args_def)
  have 3: "build (default_args\<lparr> lr := - 1 / 10, lr_scheduler := ''foo'' \<rparr>) fresh_world =
      Inl (ValueError ''Invalid learning rate'',
           fresh_world\<lparr> dirs := insert ''./logs'' (dirs fresh_world) \<rparr>)"
    by (simp add: build_def makedirs_def load_model_def set_optimizer_cases torch_SGD_def
          default_args_def fresh_world_def)
  have 4: "fst (main (toy_env True) (default_args\<lparr> lr := - 1 / 10, lr_scheduler := ''foo'' \<rparr>)
        fresh_world) = Some (ValueError ''Invalid learning rate'')"
    using 3 by (simp add: main_def prepare_def)
  show ?thesis using 1 2 4 by (simp add: default_args_def)
qed

section \<open>The sample count of the evaluation pass\<close>

lemma eval_batch_len:
  "eval_batch (E\<lparr> test_dataset_len := l \<rparr>) a = eval_batch E a"
  by (simp add: eval_batch_def preprocess_test_sample_def process_model_output_def
        forward_def reset_net_def call_def fun_eq_iff)

lemma eval_fold_len:
  "foldl (eval_batch (E\<lparr> test_dataset_len := l \<rparr>) a) st bs = foldl (eval_batch E a) st bs"
  by (simp add: eval_batch_len)

lemma eval_batch_parts:
  "fst (eval_batch E a st b) = reset_net E (at_loss E a (fst st))"
  "fst (snd (eval_batch E a st b)) =
     update_metrics (fw_observe E b (tensors (at_loss E a (fst st)))) (fw_batch_size E b)
       (fst (snd st))"
  by (simp_all add: eval_batch_def at_loss_def Let_def)

lemma observations_length [simp]: "length (observations E a w bs) = length bs"
  by (induction bs arbitrary: w) simp_all

lemma eval_fold_meters:
  "meter_total (loss_meter (fst (snd (foldl (eval_batch E a) st bs)))) =
     meter_total (loss_meter (fst (snd st))) +
     sum_list (map fst (observations E a (fst st) bs))"
  "meter_count (loss_meter (fst (snd (foldl (eval_batch E a) st bs)))) =
     meter_count (loss_meter (fst (snd st))) + length bs"
  "meter_total (acc1_meter (fst (snd (foldl (eval_batch E a) st bs)))) =
     meter_total (acc1_meter (fst (snd st))) +
     weighted_total (map (\<lambda>x. fst (snd x)) (observations E a (fst st) bs))
       (map (fw_batch_size E) bs)"
  "meter_count (acc1_meter (fst (snd (foldl (eval_batch E a) st bs)))) =
     meter_count (acc1_meter (fst (snd st))) + sum_list (map (fw_batch_size E) bs)"
  "meter_total (acc5_meter (fst (snd (foldl (eval_batch E a) st bs)))) =
     meter_total (acc5_meter (fst (snd st))) +
     weighted_total (map (\<lambda>x. snd (snd x)) (observations E a (fst st) bs))
       (map (fw_batch_size E) bs)"
  "meter_count (acc5_meter (fst (snd (foldl (eval_batch E a) st bs)))) =
     meter_count (acc5_meter (fst (snd st))) + sum_list (map (fw_batch_size E) bs)"
  by (induction bs arbitrary: st)
     (simp_all add: eval_batch_parts update_metrics_def meter_update_def weighted_total_def
        split_beta)

lemma eval_fold_gathered:
  "fst (snd (foldl (eval_batch E a) (w, empty_logger, 0) bs)) =
     gathered (observations E a w bs) (map (fw_batch_size E) bs)"
proof -
  let ?ml = "fst (snd (foldl (eval_batch E a) (w, empty_logger, 0) bs))"
  have "loss_meter ?ml = loss_meter (gathered (observations E a w bs) (map (fw_batch_size E) bs))"
    by (rule meter.equality)
       (simp_all add: eval_fold_meters gathered_def empty_logger_def empty_meter_def)
  moreover have "acc1_meter ?ml =
      acc1_meter (gathered (observations E a w bs) (map (fw_batch_size E) bs))"
    by (rule meter.equality)
       (simp_all add: eval_fold_meters gathered_def empty_logger_def empty_meter_def)
  moreover have "acc5_meter ?ml =
      acc5_meter (gathered (observations E a w bs) (map (fw_batch_size E) bs))"
    by (rule meter.equality)
       (simp_all add: eval_fold_meters gathered_def empty_logger_def empty_meter_def)
  ultimately show ?thesis
    by (intro metric_logger.equality) simp_all
qed

text \<open>
  C7. \<open>evaluate\<close> warns exactly when the test dataset declares a length, that length
  differs from the number of samples processed (reduced across processes), and the
  process is the coordinating one. The warning is the only difference it makes:
  \<open>evaluate\<close> has no exceptional outcome, and whatever length the dataset declares, the
  returned triple and the rest of the world are the same. The triple is computed over
  the batches processed: it is read from the logger that has gathered their losses
  and accuracies, after the synchronization across processes; where that leaves the
  logger as it is, the triple is the mean of the batches' losses and the means of
  their top-1 and top-5 accuracies weighted by the batch sizes.
\<close>

theorem sample_count_mismatch_only_warns:
  "warnings (new_events w (fst (evaluate E a w))) =
     (case test_dataset_len E of
        None \<Rightarrow> []
      | Some len \<Rightarrow>
          if len \<noteq> processed_samples E \<and> is_main_process E
          then [(len, processed_samples E)] else []) \<and>
   snd (evaluate E a w) =
     averages (synchronize_between_processes E
       (gathered (observations E a (emit EvalBegin w) (test_batches E))
          (map (fw_batch_size E) (test_batches E)))) \<and>
   (synchronize_between_processes E = (\<lambda>ml. ml) \<longrightarrow>
      snd (evaluate E a w) =
        (sum_list (map fst (observations E a (emit EvalBegin w) (test_batches E))) /
           real (length (test_batches E)),
         weighted_mean
           (map (\<lambda>x. fst (snd x)) (observations E a (emit EvalBegin w) (test_batches E)))
           (map (fw_batch_size E) (test_batches E)),
         weighted_mean
           (map (\<lambda>x. snd (snd x)) (observations E a (emit EvalBegin w) (test_batches E)))
           (map (fw_batch_size E) (test_batches E)))) \<and>
   snd (evaluate (E\<lparr> test_dataset_len := l \<rparr>) a w) = snd (evaluate E a w) \<and>
   tensors (fst (evaluate (E\<lparr> test_dataset_len := l \<rparr>) a w)) = tensors (fst (evaluate E a w)) \<and>
   net_dirty (fst (evaluate (E\<lparr> test_dataset_len := l \<rparr>) a w)) = net_dirty (fst (evaluate E a w)) \<and>
   files (fst (evaluate (E\<lparr> test_dataset_len := l \<rparr>) a w)) = files (fst (evaluate E a w)) \<and>
   dirs (fst (evaluate (E\<lparr> test_dataset_len := l \<rparr>) a w)) = dirs (fst (evaluate E a w)) \<and>
   filter (\<lambda>ev. warning_of ev = None) (trace (fst (evaluate (E\<lparr> test_dataset_len := l \<rparr>) a w))) =
     filter (\<lambda>ev. warning_of ev = None) (trace (fst (evaluate E a w)))"
proof -
  have x: "\<exists>evs. trace (fst (evaluate E a w)) = trace w @ evs"
    by (simp add: evaluate_fields)
  have "warnings (trace (fst (evaluate E a w))) = warnings (trace w) @ warnings (warn_events E)"
    by (simp add: evaluate_fields pass_events_quiet warning_of_def)
  then have "warnings (new_events w (fst (evaluate E a w))) = warnings (warn_events E)"
    by (rule new_events_reads(3) [OF x])
  then have 1: "warnings (new_events w (fst (evaluate E a w))) =
     (case test_dataset_len E of
        None \<Rightarrow> []
      | Some len \<Rightarrow>
          if len \<noteq> processed_samples E \<and> is_main_process E
          then [(len, processed_samples E)] else [])"
    by (simp add: warn_events_def warning_of_def split: option.splits)
  have 2: "snd (evaluate E a w) =
     averages (synchronize_between_processes E
       (gathered (observations E a (emit EvalBegin w) (test_batches E))
          (map (fw_batch_size E) (test_batches E))))"
    by (simp add: evaluate_def Let_def eval_fold_gathered)
  have 3: "synchronize_between_processes E = (\<lambda>ml. ml) \<longrightarrow>
      snd (evaluate E a w) =
        (sum_list (map fst (observations E a (emit EvalBegin w) (test_batches E))) /
           real (length (test_batches E)),
         weighted_mean
           (map (\<lambda>x. fst (snd x)) (observations E a (emit EvalBegin w) (test_batches E)))
           (map (fw_batch_size E) (test_batches E)),
         weighted_mean
           (map (\<lambda>x. snd (snd x)) (observations E a (emit EvalBegin w) (test_batches E)))
           (map (fw_batch_size E) (test_batches E)))"
    by (simp add: 2 averages_def global_avg_def gathered_def weighted_mean_def)
  have 4: "snd (evaluate (E\<lparr> test_dataset_len := l \<rparr>) a w) = snd (evaluate E a w)"
    by (simp add: evaluate_def Let_def eval_fold_len)
  have 5: "tensors (fst (evaluate (E\<lparr> test_dataset_len := l \<rparr>) a w)) =
      tensors (fst (evaluate E a w))"
    by (simp add: evaluate_def Let_def eval_fold_len split: option.splits)
  have 6: "net_dirty (fst (evaluate (E\<lparr> test_dataset_len := l \<rparr>) a w)) =
      net_dirty (fst (evaluate E a w))"
    "files (fst (evaluate (E\<lparr> test_dataset_len := l \<rparr>) a w)) = files (fst (evaluate E a w))"
    "dirs (fst (evaluate (E\<lparr> test_dataset_len := l \<rparr>) a w)) = dirs (fst (evaluate E a w))"
    by (simp_all add: evaluate_fields)
  have q: "\<And>E. filter (\<lambda>ev. warning_of ev = None) (warn_events E) = []"
    by (simp add: warn_events_def warning_of_def split: option.splits)
  have 7: "filter (\<lambda>ev. warning_of ev = None)
       (trace (fst (evaluate (E\<lparr> test_dataset_len := l \<rparr>) a w))) =
     filter (\<lambda>ev. warning_of ev = None) (trace (fst (evaluate E a w)))"
    by (simp add: evaluate_fields q)
  show ?thesis using 1 2 3 4 5 6 7 by blast
qed

theorem sample_count_mismatch_only_warns_witness:
  "synchronize_between_processes (toy_env True) = (\<lambda>ml. ml) \<and>
   warnings (new_events fresh_world (fst (evaluate (toy_env True) short_args fresh_world))) =
     [(5, 3)] \<and>
   snd (evaluate (toy_env True) short_args fresh_world) = (1 / 4, 1 / 2, 1) \<and>
   snd (evaluate ((toy_env True)\<lparr> test_dataset_len := Some 3 \<rparr>) short_args fresh_world) =
     (1 / 4, 1 / 2, 1)"
proof -
  have p: "processed_samples (toy_env True) = 3"
    by (simp add: processed_samples_def)
  show ?thesis
    using sample_count_mismatch_only_warns [of fresh_world "toy_env True" short_args "Some 3"] p
    by (simp add: weighted_mean_def weighted_total_def averages_def gathered_def
          global_avg_def)
qed

section \<open>The steps of a training batch\<close>

lemma steps_append [simp]: "steps (xs @ ys) = steps xs @ steps ys"
  by (simp add: steps_def List.map_filter_def)

lemma steps_Nil [simp]: "steps [] = []"
  by (simp add: steps_def map_filter_simps)

lemma steps_Cons [simp]:
  "steps (ev # tr) = (case step_of ev of None \<Rightarrow> steps tr | Some x \<Rightarrow> x # steps tr)"
  by (cases "step_of ev") (simp_all add: steps_def map_filter_simps)

lemma steps_of_step_events:
  "steps (step_events a scaler) =
     Backpropagate scaler #
     (case clip_grad_norm a of None \<Rightarrow> [] | Some c \<Rightarrow> [Clip_gradient_norm c]) @
     [Optimizer_step]"
  by (simp add: step_events_def step_of_def split: option.splits)

lemma steps_of_train_batch:
  "steps (train_batch_events a (amp a) d) = spec_batch_steps a"
  by (simp add: train_batch_events_def spec_batch_steps_def steps_of_step_events step_of_def)

lemma steps_of_pass:
  "steps (pass_events (train_batch_events a (amp a)) d n) =
     concat (replicate n (spec_batch_steps a))"
  by (induction n arbitrary: d) (simp_all add: steps_of_train_batch)

text \<open>
  C8. The events of a training batch, read as the processing steps the specification
  lists, are: the image replicated over \<open>T\<close> time steps, encoded to spikes, the forward
  pass, the output averaged over time, the MSE loss against the one-hot target, back
  propagation (through the scaler exactly when mixed precision is on), the clipping of
  the gradient norm exactly when \<open>clip_grad_norm\<close> is set, and the optimizer step; and
  a training pass is this sequence once for each batch.
\<close>

theorem training_batch_steps_in_order:
  "steps (new_events (fst st) (fst (train_batch E a (amp a) st b))) =
     [Replicate_over_time (T_steps a), Encode_to_spikes, Forward_pass, Average_over_time,
      MSE_against_one_hot, Backpropagate (amp a)] @
     (case clip_grad_norm a of None \<Rightarrow> [] | Some c \<Rightarrow> [Clip_gradient_norm c]) @
     [Optimizer_step] \<and>
   steps (new_events w (fst (train_one_epoch E a epoch (amp a) w))) =
     concat (replicate (length (train_batches E epoch)) (spec_batch_steps a))"
proof -
  have "new_events (fst st) (fst (train_batch E a (amp a) st b)) =
      train_batch_events a (amp a) (net_dirty (fst st))"
    by (rule new_events_append) simp
  then have 1: "steps (new_events (fst st) (fst (train_batch E a (amp a) st b))) =
     [Replicate_over_time (T_steps a), Encode_to_spikes, Forward_pass, Average_over_time,
      MSE_against_one_hot, Backpropagate (amp a)] @
     (case clip_grad_norm a of None \<Rightarrow> [] | Some c \<Rightarrow> [Clip_gradient_norm c]) @
     [Optimizer_step]"
    by (simp add: steps_of_train_batch spec_batch_steps_def)
  have "new_events w (fst (train_one_epoch E a epoch (amp a) w)) =
      TrainBegin epoch #
        pass_events (train_batch_events a (amp a)) (net_dirty w) (length (train_batches E epoch)) @
        [TrainEnd]"
    by (rule new_events_append) (simp add: train_one_epoch_fields)
  then have 2: "steps (new_events w (fst (train_one_epoch E a epoch (amp a) w))) =
     concat (replicate (length (train_batches E epoch)) (spec_batch_steps a))"
    using steps_of_pass [of a "net_dirty w" "length (train_batches E epoch)"]
    by (simp add: step_of_def)
  show ?thesis using 1 2 by blast
qed

section \<open>Temporal state between batches\<close>

lemma clean_sinceI:
  "trace w' = trace w @ evs \<Longrightarrow> Forward True \<notin> set evs \<Longrightarrow> \<not> net_dirty w' \<Longrightarrow>
   clean_since w w'"
  by (simp add: clean_since_def new_events_def)

lemma clean_since_trans:
  "clean_since w0 w1 \<Longrightarrow> clean_since w1 w2 \<Longrightarrow> clean_since w0 w2"
  by (auto simp add: clean_since_def new_events_def)

lemma pass_events_clean:
  assumes "Forward True \<notin> set (f False)"
  shows "Forward True \<notin> set (pass_events f False n)"
  using assms by (induction n) simp_all

lemma batch_events_clean:
  "Forward True \<notin> set (train_batch_events a scaler False)"
  "Forward True \<notin> set (eval_batch_events a False)"
  by (simp_all add: train_batch_events_def eval_batch_events_def step_events_def
        split: option.splits)

lemma warn_events_clean: "Forward True \<notin> set (warn_events E)"
  by (simp add: warn_events_def split: option.splits)

lemma train_one_epoch_clean:
  "\<not> net_dirty w \<Longrightarrow> clean_since w (fst (train_one_epoch E a epoch scaler w))"
  by (rule clean_sinceI [OF train_one_epoch_fields(1)])
     (simp_all add: pass_events_clean batch_events_clean train_one_epoch_fields)

lemma evaluate_clean:
  "\<not> net_dirty w \<Longrightarrow> clean_since w (fst (evaluate E a w))"
  by (rule clean_sinceI [OF evaluate_fields(1)])
     (simp_all add: pass_events_clean batch_events_clean warn_events_clean evaluate_fields)

lemma quiet_steps_clean:
  "\<not> net_dirty w \<Longrightarrow> ev \<noteq> Forward True \<Longrightarrow> clean_since w (emit ev w)"
  "\<not> net_dirty w \<Longrightarrow> ev \<noteq> Forward True \<Longrightarrow> clean_since w (call E ev w)"
  "\<not> net_dirty w \<Longrightarrow> clean_since w (add_scalars tag res epoch w)"
  "\<not> net_dirty w \<Longrightarrow> clean_since w (torch_save ck path w)"
  "\<not> net_dirty w \<Longrightarrow> clean_since w w"
  by (auto simp add: clean_since_def new_events_def add_scalars_def split: prod.splits)

lemma clean_since_dirty: "clean_since w w' \<Longrightarrow> \<not> net_dirty w'"
  by (simp add: clean_since_def)

lemma before_eval_clean:
  assumes "\<not> net_dirty w"
  shows "clean_since w (before_eval E a epoch w)"
proof -
  define w1 where "w1 = (if distributed E then emit (SetEpoch epoch) w else w)"
  define tr where "tr = train_one_epoch E a epoch (amp a) w1"
  define w2 where "w2 = (if is_main_process E then add_scalars ''train'' (snd tr) epoch (fst tr)
                         else fst tr)"
  have 1: "clean_since w w1"
    using assms by (simp add: w1_def quiet_steps_clean)
  have 2: "clean_since w1 (fst tr)"
    unfolding tr_def by (rule train_one_epoch_clean [OF clean_since_dirty [OF 1]])
  have 3: "clean_since (fst tr) w2"
    using clean_since_dirty [OF 2] by (simp add: w2_def quiet_steps_clean)
  have d: "\<not> net_dirty w2"
    by (rule clean_since_dirty [OF 3])
  have 4: "clean_since w2 (call E LrSchedulerStep w2)"
    by (rule quiet_steps_clean(2) [OF d]) simp
  have "before_eval E a epoch w = call E LrSchedulerStep w2"
    by (simp add: before_eval_def Let_def w1_def tr_def w2_def)
  then show ?thesis
    using clean_since_trans [OF clean_since_trans [OF clean_since_trans [OF 1 2] 3] 4] by simp
qed

lemma after_eval_clean:
  assumes "\<not> net_dirty w"
  shows "clean_since w (after_eval E a epoch w)"
proof -
  have 1: "clean_since w (before_eval E a epoch w)"
    by (rule before_eval_clean [OF assms])
  have 2: "clean_since (before_eval E a epoch w) (fst (evaluate E a (before_eval E a epoch w)))"
    by (rule evaluate_clean [OF clean_since_dirty [OF 1]])
  have 3: "clean_since (fst (evaluate E a (before_eval E a epoch w))) (after_eval E a epoch w)"
    using clean_since_dirty [OF 2] by (simp add: after_eval_def Let_def quiet_steps_clean)
  show ?thesis by (rule clean_since_trans [OF clean_since_trans [OF 1 2] 3])
qed

lemma epoch_body_clean:
  assumes "\<not> net_dirty (fst st)"
  shows "clean_since (fst st) (fst (epoch_body E a epoch st))"
proof -
  let ?w = "after_eval E a epoch (fst st)"
  let ?ck = "epoch_checkpoint E a epoch st"
  have 1: "clean_since (fst st) ?w" by (rule after_eval_clean [OF assms])
  have d: "\<not> net_dirty ?w" by (rule clean_since_dirty [OF 1])
  have 2: "clean_since ?w (torch_save ?ck (latest_path (float_str E) a) ?w)"
    by (rule quiet_steps_clean(4) [OF d])
  have 3: "clean_since (torch_save ?ck (latest_path (float_str E) a) ?w)
      (torch_save ?ck (best_path (float_str E) a)
         (torch_save ?ck (latest_path (float_str E) a) ?w))"
    by (rule quiet_steps_clean(4) [OF clean_since_dirty [OF 2]])
  show ?thesis
    using 1 clean_since_trans [OF 1 2] clean_since_trans [OF clean_since_trans [OF 1 2] 3]
    by (simp add: epoch_body_unfold Let_def)
qed

lemma epoch_loop_clean:
  "\<not> net_dirty (fst st) \<Longrightarrow> clean_since (fst st) (fst (epoch_loop E a epoch st))"
proof (induction E a epoch st rule: epoch_loop.induct)
  case (1 E a epoch st)
  show ?case
  proof (cases "epoch < epochs a")
    case True
    have b: "clean_since (fst st) (fst (epoch_body E a epoch st))"
      by (rule epoch_body_clean [OF "1.prems"])
    have "clean_since (fst (epoch_body E a epoch st))
        (fst (epoch_loop E a (epoch + 1) (epoch_body E a epoch st)))"
      by (rule "1.IH" [OF True clean_since_dirty [OF b]])
    then show ?thesis
      using True clean_since_trans [OF b] by (simp add: epoch_loop.simps [of E a epoch])
  next
    case False
    then show ?thesis
      using "1.prems" by (simp add: epoch_loop.simps [of E a epoch] quiet_steps_clean)
  qed
qed

lemma main_clean:
  assumes "\<not> net_dirty w"
  shows "Forward True \<notin> set (new_events w (snd (main E a w)))"
proof (cases "prepare E a w")
  case (Inl ew)
  obtain e w1 where "ew = (e, w1)" by (cases ew) auto
  then have "trace (snd (main E a w)) = trace w"
    using Inl prepare_Inl [of E a w e w1] by (simp add: main_def)
  then show ?thesis by (simp add: new_events_def)
next
  case (Inr x)
  obtain a1 w1 mx where x: "x = (a1, w1, mx)" by (cases x) auto
  have p: "trace w1 = trace w" "\<not> net_dirty w1"
    using prepare_Inr [of E a w a1 w1 mx] Inr x assms by simp_all
  have "clean_since w1 (fst (epoch_loop E a1 (start_epoch a1) (w1, mx)))"
    using epoch_loop_clean [of "(w1, mx)" E a1 "start_epoch a1"] p by simp
  then show ?thesis
    using Inr x p by (simp add: main_def clean_since_def new_events_def)
qed

lemma occurrences_append [simp]:
  "occurrences ev (xs @ ys) = occurrences ev xs + occurrences ev ys"
  by (simp add: occurrences_def)

lemma occurrences_Nil [simp]: "occurrences ev [] = 0"
  by (simp add: occurrences_def)

lemma occurrences_Cons [simp]:
  "occurrences ev (x # xs) = (if x = ev then 1 else 0) + occurrences ev xs"
  by (simp add: occurrences_def)

lemma occurrences_pass:
  assumes "\<And>d. occurrences ev (f d) = k"
  shows "occurrences ev (pass_events f d n) = n * k"
  using assms by (induction n arbitrary: d) simp_all

lemma occurrences_batch:
  "occurrences ResetNet (train_batch_events a scaler d) = 1"
  "occurrences ResetNet (eval_batch_events a d) = 1"
  "occurrences ResetNet (warn_events E) = 0"
  by (simp_all add: train_batch_events_def eval_batch_events_def
        step_events_def warn_events_def split: option.splits)

text \<open>
  C9. In the training pass and in the evaluation pass the temporal state of the
  network is reset as the last call of every batch, once for each batch. So when a pass
  starts on a network without temporal state, no forward pass of it starts on a network
  that still holds some, and the pass leaves the network without any; the same holds
  from one pass to the next over a whole run.
\<close>

theorem temporal_state_reset_every_batch:
  "last (trace (fst (train_batch E a scaler st b))) = ResetNet \<and>
   \<not> net_dirty (fst (train_batch E a scaler st b)) \<and>
   last (trace (fst (eval_batch E a st' b))) = ResetNet \<and>
   \<not> net_dirty (fst (eval_batch E a st' b)) \<and>
   occurrences ResetNet (new_events w (fst (train_one_epoch E a epoch scaler w))) =
     length (train_batches E epoch) \<and>
   occurrences ResetNet (new_events w (fst (evaluate E a w))) = length (test_batches E) \<and>
   (\<not> net_dirty w \<longrightarrow>
      Forward True \<notin> set (new_events w (fst (train_one_epoch E a epoch scaler w))) \<and>
      \<not> net_dirty (fst (train_one_epoch E a epoch scaler w)) \<and>
      Forward True \<notin> set (new_events w (fst (evaluate E a w))) \<and>
      \<not> net_dirty (fst (evaluate E a w)) \<and>
      Forward True \<notin> set (new_events w (snd (main E a w))))"
proof -
  have 1: "last (trace (fst (train_batch E a scaler st b))) = ResetNet \<and>
     \<not> net_dirty (fst (train_batch E a scaler st b)) \<and>
     last (trace (fst (eval_batch E a st' b))) = ResetNet \<and>
     \<not> net_dirty (fst (eval_batch E a st' b))"
    by (simp add: train_batch_events_def eval_batch_events_def)
  have "new_events w (fst (train_one_epoch E a epoch scaler w)) =
      TrainBegin epoch #
        pass_events (train_batch_events a scaler) (net_dirty w) (length (train_batches E epoch)) @
        [TrainEnd]"
    by (rule new_events_append) (simp add: train_one_epoch_fields)
  then have 2: "occurrences ResetNet (new_events w (fst (train_one_epoch E a epoch scaler w))) =
     length (train_batches E epoch)"
    by (simp add: occurrences_pass [where k = 1] occurrences_batch)
  have "new_events w (fst (evaluate E a w)) =
      EvalBegin # pass_events (eval_batch_events a) (net_dirty w) (length (test_batches E)) @
        warn_events E @ [EvalEnd]"
    by (rule new_events_append) (simp add: evaluate_fields)
  then have 3: "occurrences ResetNet (new_events w (fst (evaluate E a w))) = length (test_batches E)"
    by (simp add: occurrences_pass [where k = 1] occurrences_batch)
  have 4: "\<not> net_dirty w \<longrightarrow>
      Forward True \<notin> set (new_events w (fst (train_one_epoch E a epoch scaler w))) \<and>
      \<not> net_dirty (fst (train_one_epoch E a epoch scaler w)) \<and>
      Forward True \<notin> set (new_events w (fst (evaluate E a w))) \<and>
      \<not> net_dirty (fst (evaluate E a w)) \<and>
      Forward True \<notin> set (new_events w (snd (main E a w)))"
    using train_one_epoch_clean [of w E a epoch scaler] evaluate_clean [of w E a]
      main_clean [of w E a]
    by (simp add: clean_since_def)
  show ?thesis using 1 2 3 4 by blast
qed

theorem temporal_state_reset_every_batch_witness:
  "\<not> net_dirty fresh_world \<and>
   occurrences ResetNet
     (new_events fresh_world (fst (train_one_epoch (toy_env True) short_args 0 False fresh_world))) = 2 \<and>
   Forward True \<notin>
     set (new_events fresh_world (fst (train_one_epoch (toy_env True) short_args 0 False fresh_world))) \<and>
   Forward True \<notin> set (new_events fresh_world (fst (evaluate (toy_env True) short_args fresh_world))) \<and>
   Forward True \<notin> set (new_events fresh_world (snd (main (toy_env True) short_args fresh_world)))"
proof -
  have d: "\<not> net_dirty fresh_world" by (simp add: fresh_world_def)
  show ?thesis
    using temporal_state_reset_every_batch
        [of "toy_env True" short_args False "(fresh_world, empty_logger)" 2
          "(fresh_world, empty_logger, 0)" fresh_world 0] d
    by simp
qed

section \<open>The run directory\<close>

lemma prepare_build:
  "prepare E a w = Inr x \<Longrightarrow> load_model a = Inr () \<and> (\<exists>y. set_optimizer a = Inr y)"
  by (auto simp add: prepare_def split: sum.splits dest!: build_Inr)

lemma main_success:
  assumes "fst (main E a w) = None"
  shows "\<exists>a1 w1 mx. prepare E a w = Inr (a1, w1, mx)"
proof (cases "prepare E a w")
  case (Inl ew)
  then show ?thesis using assms by (cases ew) (simp add: main_def)
next
  case (Inr x)
  then show ?thesis by (cases x) auto
qed

lemma main_success_dirs:
  assumes "is_main_process E" and "fst (main E a w) = None"
  shows "tb_dir (float_str E) a \<in> dirs (snd (main E a w))"
proof -
  obtain a1 w1 mx where p: "prepare E a w = Inr (a1, w1, mx)"
    using main_success [OF assms(2)] by blast
  have "tb_dir (float_str E) a \<in> dirs w1"
    using prepare_Inr [OF p] assms(1) by simp
  then show ?thesis
    using p by (simp add: main_def epoch_loop_dirs)
qed

lemma fresh_run_blocked:
  assumes "is_main_process E" and "resume b = None" and "tb_dir (float_str E) b \<in> dirs w"
  shows "fst (main E b w) \<noteq> None \<and> files (snd (main E b w)) = files w \<and>
         trace (snd (main E b w)) = trace w \<and>
         (load_model b = Inr () \<and> (\<exists>x. set_optimizer b = Inr x) \<and>
          (\<exists>x. set_lr_scheduler b = Inr x) \<longrightarrow>
            fst (main E b w) = Some (FileExistsError (tb_dir (float_str E) b)))"
proof (cases "build b w")
  case (Inl ew)
  obtain e w1 where ew: "ew = (e, w1)" by (cases ew) auto
  have "main E b w = (Some e, w1)" using Inl ew by (simp add: main_def prepare_def)
  then show ?thesis using build_Inl [of b w e w1] Inl ew by auto
next
  case (Inr wb)
  have "tb_dir (float_str E) b \<in> dirs wb"
    using build_Inr [OF Inr] assms(3) by auto
  then have "make_run_dirs E b wb = Inl (FileExistsError (tb_dir (float_str E) b), wb)"
    using assms(1,2) by (rule make_run_dirs_exists [rotated 2])
  then have "main E b w = (Some (FileExistsError (tb_dir (float_str E) b)), wb)"
    using Inr by (simp add: main_def prepare_def)
  then show ?thesis using build_Inr [OF Inr] by simp
qed

lemma new_process_fields [simp]:
  "dirs (new_process w0 w) = dirs w" "files (new_process w0 w) = files w"
  "trace (new_process w0 w) = trace w0" "tensors (new_process w0 w) = tensors w0"
  "net_dirty (new_process w0 w) = net_dirty w0"
  by (simp_all add: new_process_def)

lemma toy_dirs:
  "get_logdir_name (\<lambda>x. ''0.1'') (short_args\<lparr> T_steps := t \<rparr>) =
     ''mixer_b32_e2_sgd_lr0.1_wd0.1_seed42''"
  "tb_dir (\<lambda>x. ''0.1'') (short_args\<lparr> T_steps := t \<rparr>) =
     ''./logs/mixer_b32_e2_sgd_lr0.1_wd0.1_seed42/tb''"
  "pt_dir (\<lambda>x. ''0.1'') (short_args\<lparr> T_steps := t \<rparr>) =
     ''./logs/mixer_b32_e2_sgd_lr0.1_wd0.1_seed42/pt''"
  by (simp_all add: tb_dir_def pt_dir_def path_join_def join2_def get_logdir_name_def
        short_args_def default_args_def str_int_def str_nat.simps digit_char_def)

lemma toy_first_run: "fst (main (toy_env True) (short_args\<lparr> T_steps := 4 \<rparr>) fresh_world) = None"
proof -
  have "build (short_args\<lparr> T_steps := 4 \<rparr>) fresh_world =
      Inr (fresh_world\<lparr> dirs := insert ''./logs'' (dirs fresh_world) \<rparr>)"
    by (simp add: build_def makedirs_def load_model_def set_optimizer_def torch_SGD_def
          set_lr_scheduler_def main_lr_scheduler_def fresh_world_def)
  moreover have "resume (short_args\<lparr> T_steps := 4 \<rparr>) = None"
    by (simp add: short_args_def default_args_def)
  ultimately have "\<exists>x. prepare (toy_env True) (short_args\<lparr> T_steps := 4 \<rparr>) fresh_world = Inr x"
    by (simp add: prepare_def make_run_dirs_def makedirs_def toy_dirs resume_state_def
          fresh_world_def)
  then show ?thesis by (auto simp add: main_def split: prod.splits)
qed

text \<open>
  C10, as amended. The name of the run directory is a function of the fields \<open>model\<close>,
  \<open>batch_size\<close>, \<open>epochs\<close>, \<open>opt\<close>, \<open>lr\<close>, \<open>weight_decay\<close> and \<open>seed\<close>: two configurations
  that agree on them get the same name whatever else differs, and with the same
  \<open>output_dir\<close> the same checkpoint and log paths. The files are not overwritten by a run
  started without \<open>--resume\<close>: on the coordinating process, after a first run that got
  through its set-up, such a second run, a new process on the files the first has
  left, raises an exception before any event and leaves every file as it was, and that
  exception is \<open>FileExistsError\<close> for the directory \<open>tb\<close> when torch accepts its
  optimizer and scheduler.
\<close>

theorem run_directory_of_seven_fields:
  assumes "model a = model b" and "batch_size a = batch_size b" and "epochs a = epochs b"
    and "opt a = opt b" and "lr a = lr b" and "weight_decay a = weight_decay b"
    and "seed a = seed b"
  shows "get_logdir_name fstr a = get_logdir_name fstr b \<and>
         (output_dir a = output_dir b \<longrightarrow>
            pt_dir fstr a = pt_dir fstr b \<and> tb_dir fstr a = tb_dir fstr b \<and>
            args_txt fstr a = args_txt fstr b \<and> latest_path fstr a = latest_path fstr b \<and>
            best_path fstr a = best_path fstr b) \<and>
         (output_dir a = output_dir b \<and> is_main_process E \<and> resume b = None \<and>
          fst (main E a w) = None \<longrightarrow>
            fst (main E b (new_process w0 (snd (main E a w)))) \<noteq> None \<and>
            files (snd (main E b (new_process w0 (snd (main E a w))))) = files (snd (main E a w)) \<and>
            trace (snd (main E b (new_process w0 (snd (main E a w))))) = trace w0 \<and>
            ((\<exists>x. set_optimizer b = Inr x) \<and> (\<exists>x. set_lr_scheduler b = Inr x) \<longrightarrow>
               fst (main E b (new_process w0 (snd (main E a w)))) =
                 Some (FileExistsError (tb_dir (float_str E) b))))"
proof -
  have n: "\<And>f. get_logdir_name f a = get_logdir_name f b"
    using assms by (simp add: get_logdir_name_def)
  have p: "\<And>f. output_dir a = output_dir b \<Longrightarrow>
            pt_dir f a = pt_dir f b \<and> tb_dir f a = tb_dir f b \<and>
            args_txt f a = args_txt f b \<and> latest_path f a = latest_path f b \<and>
            best_path f a = best_path f b"
    using n by (simp add: pt_dir_def tb_dir_def args_txt_def latest_path_def best_path_def)
  have r: "output_dir a = output_dir b \<and> is_main_process E \<and> resume b = None \<and>
          fst (main E a w) = None \<longrightarrow>
            fst (main E b (new_process w0 (snd (main E a w)))) \<noteq> None \<and>
            files (snd (main E b (new_process w0 (snd (main E a w))))) = files (snd (main E a w)) \<and>
            trace (snd (main E b (new_process w0 (snd (main E a w))))) = trace w0 \<and>
            ((\<exists>x. set_optimizer b = Inr x) \<and> (\<exists>x. set_lr_scheduler b = Inr x) \<longrightarrow>
               fst (main E b (new_process w0 (snd (main E a w)))) =
                 Some (FileExistsError (tb_dir (float_str E) b)))"
  proof
    assume h: "output_dir a = output_dir b \<and> is_main_process E \<and> resume b = None \<and>
          fst (main E a w) = None"
    then have d: "tb_dir (float_str E) b \<in> dirs (snd (main E a w))"
      using main_success_dirs [of E a w] p [of "float_str E"] by simp
    obtain x where x: "prepare E a w = Inr x"
      using main_success [of E a w] h by auto
    have "load_model a = Inr ()"
      using prepare_build [OF x] by simp
    then have ok: "load_model b = Inr ()"
      using assms(1) by (auto simp add: load_model_def split: if_splits)
    show "fst (main E b (new_process w0 (snd (main E a w)))) \<noteq> None \<and>
            files (snd (main E b (new_process w0 (snd (main E a w))))) = files (snd (main E a w)) \<and>
            trace (snd (main E b (new_process w0 (snd (main E a w))))) = trace w0 \<and>
            ((\<exists>x. set_optimizer b = Inr x) \<and> (\<exists>x. set_lr_scheduler b = Inr x) \<longrightarrow>
               fst (main E b (new_process w0 (snd (main E a w)))) =
                 Some (FileExistsError (tb_dir (float_str E) b)))"
      using fresh_run_blocked [of E b "new_process w0 (snd (main E a w))"] h d ok by simp
  qed
  show ?thesis using n [of fstr] p [of fstr] r by blast
qed

theorem run_directory_of_seven_fields_witness:
  "get_logdir_name (\<lambda>x. ''0.1'') (short_args\<lparr> T_steps := 4 \<rparr>) =
     get_logdir_name (\<lambda>x. ''0.1'') (short_args\<lparr> T_steps := 8 \<rparr>) \<and>
   latest_path (\<lambda>x. ''0.1'') (short_args\<lparr> T_steps := 4 \<rparr>) =
     latest_path (\<lambda>x. ''0.1'') (short_args\<lparr> T_steps := 8 \<rparr>) \<and>
   is_main_process (toy_env True) \<and> resume (short_args\<lparr> T_steps := 8 \<rparr>) = None \<and>
   fst (main (toy_env True) (short_args\<lparr> T_steps := 4 \<rparr>) fresh_world) = None \<and>
   fst (main (toy_env True) (short_args\<lparr> T_steps := 8 \<rparr>)
          (new_process fresh_world
             (snd (main (toy_env True) (short_args\<lparr> T_steps := 4 \<rparr>) fresh_world)))) \<noteq> None"
proof -
  have r: "resume (short_args\<lparr> T_steps := 8 \<rparr>) = None"
    by (simp add: short_args_def default_args_def)
  show ?thesis
    using run_directory_of_seven_fields
        [of "short_args\<lparr> T_steps := 4 \<rparr>" "short_args\<lparr> T_steps := 8 \<rparr>" "\<lambda>x. ''0.1''"
          "toy_env True" fresh_world fresh_world]
      toy_first_run r
    by simp
qed

text \<open>
  C10 as stated fails in its last part: two configurations that differ in \<open>T\<close> only
  get the same directory, but the second run, started without \<open>--resume\<close> after the
  first, stops with \<open>FileExistsError\<close> and overwrites nothing.
\<close>

theorem run_directory_not_overwritten_counterexample:
  "get_logdir_name (float_str (toy_env True)) (short_args\<lparr> T_steps := 4 \<rparr>) =
     get_logdir_name (float_str (toy_env True)) (short_args\<lparr> T_steps := 8 \<rparr>) \<and>
   fst (main (toy_env True) (short_args\<lparr> T_steps := 4 \<rparr>) fresh_world) = None \<and>
   fst (main (toy_env True) (short_args\<lparr> T_steps := 8 \<rparr>)
          (new_process fresh_world
             (snd (main (toy_env True) (short_args\<lparr> T_steps := 4 \<rparr>) fresh_world)))) =
     Some (FileExistsError ''./logs/mixer_b32_e2_sgd_lr0.1_wd0.1_seed42/tb'') \<and>
   files (snd (main (toy_env True) (short_args\<lparr> T_steps := 8 \<rparr>)
          (new_process fresh_world
             (snd (main (toy_env True) (short_args\<lparr> T_steps := 4 \<rparr>) fresh_world))))) =
     files (snd (main (toy_env True) (short_args\<lparr> T_steps := 4 \<rparr>) fresh_world))"
proof -
  let ?E = "toy_env True"
  let ?a = "short_args\<lparr> T_steps := 4 \<rparr>"
  let ?b = "short_args\<lparr> T_steps := 8 \<rparr>"
  let ?w = "new_process fresh_world (snd (main ?E ?a fresh_world))"
  have d: "tb_dir (float_str ?E) ?b \<in> dirs ?w"
    using main_success_dirs [of ?E ?a fresh_world] toy_first_run by (simp add: toy_dirs)
  have ok: "load_model ?b = Inr ()" "\<exists>x. set_optimizer ?b = Inr x"
    "\<exists>x. set_lr_scheduler ?b = Inr x" "resume ?b = None"
    by (simp_all add: load_model_def set_optimizer_def torch_SGD_def set_lr_scheduler_def
          main_lr_scheduler_def short_args_def default_args_def)
  show ?thesis
    using fresh_run_blocked [of ?E ?b ?w] d ok toy_first_run by (simp add: toy_dirs)
qed

section \<open>The learning-rate schedule\<close>







lemma default_args_schedule [simp]:
  "lr_scheduler default_args = ''cosa''" "lr_warmup_method default_args = ''linear''"
  "lr_warmup_epochs default_args = 10" "epochs default_args = 90"
  "lr_warmup_decay default_args = 1 / 100" "lr default_args = 1 / 10"
  by (simp_all add: default_args_def)



end
